theory Spec2Isabelle
  imports Complex_Main
begin

section \<open>The analysis pipeline of \<^verbatim>\<open>netlify/functions/analyze.py\<close>\<close>

text \<open>
  The class \<^verbatim>\<open>KalshiAnalyzer\<close> fetches open markets, looks up news for each market, asks a
  language model for an estimate, and turns the estimate and the market price into an edge
  and a recommendation. The embedding below follows the four methods
  \<^verbatim>\<open>get_active_markets\<close>, \<^verbatim>\<open>search_news\<close>, \<^verbatim>\<open>analyze_event\<close> and \<^verbatim>\<open>run_analysis\<close>.

  What the program receives from outside (HTTP responses, the model's reply, the result of
  \<^verbatim>\<open>json.loads\<close>) is read from a record \<open>env\<close>; every exception the Python can raise is
  a value \<open>Inl e\<close>. Numbers are mathematical: a Python \<^verbatim>\<open>float\<close> is a \<^typ>\<open>real\<close>, so the
  rounding, the infinities, the NaN and the overflow of binary64 are outside this model. A Python
  \<^verbatim>\<open>str\<close> is a \<^typ>\<open>string\<close>, one \<^typ>\<open>char\<close> per code point below 256.
\<close>

subsection \<open>Values, exceptions and the outside world\<close>

datatype json =
    JNull
  | JBool bool
  | JInt int
  | JFloat real
  | JStr string
  | JArr "json list"
  | JObj "(string \<times> json) list"

datatype exc_class =
    RequestException | JSONDecodeError | AttributeError | TypeError | IndexError
  | OtherException

datatype exn = Exn exc_class string

datatype 'a http_result = Raised exn | Response nat "exn + 'a"

datatype content_block = TextBlock string | OtherBlock

record rss_item =
  item_title :: "string option"
  item_link :: "string option"

record news_source =
  src_title :: json
  src_description :: json
  src_url :: json
  src_name :: json

datatype recommendation = STRONG_BUY | BUY | STRONG_SELL | SELL | HOLD

record analysis_result =
  ticker :: json
  title :: json
  market_price :: real
  estimated_probability :: json
  edge :: real
  edge_percent :: string
  confidence :: json
  recommendation :: recommendation
  reasoning :: json
  sources_count :: nat

text \<open>
  The outside world. The \<^typ>\<open>nat\<close> argument of the three per-market services is the
  position of the market in the batch, so that the same request may be answered differently
  for different markets. \<open>json_loads\<close>, \<open>url_quote\<close>, \<open>repr_other\<close> and \<open>format_percent\<close>
  stand for \<^verbatim>\<open>json.loads\<close>, \<^verbatim>\<open>requests.utils.quote\<close>, \<^verbatim>\<open>str\<close> on floats, lists and
  dicts, and the format \<^verbatim>\<open>f"{x:+.1f}%"\<close>.
\<close>

record env =
  news_api_key :: "string option"
  kalshi_get :: "json http_result"
  newsapi_get :: "nat \<Rightarrow> string \<Rightarrow> json http_result"
  rss_get :: "nat \<Rightarrow> string \<Rightarrow> rss_item list http_result"
  messages_create :: "nat \<Rightarrow> string \<Rightarrow> exn + content_block list"
  json_loads :: "string \<Rightarrow> exn + json"
  url_quote :: "string \<Rightarrow> string"
  repr_other :: "json \<Rightarrow> string"
  format_percent :: "real \<Rightarrow> string"

subsection \<open>Python primitives\<close>

text \<open>\<^verbatim>\<open>d.get(key, default)\<close> on a dict, and on any value: only a dict has \<^verbatim>\<open>get\<close>.\<close>

definition get_or :: "(string \<times> json) list \<Rightarrow> string \<Rightarrow> json \<Rightarrow> json" where
  "get_or kvs key dflt = (case map_of kvs key of None \<Rightarrow> dflt | Some v \<Rightarrow> v)"

definition dict_get :: "json \<Rightarrow> string \<Rightarrow> json \<Rightarrow> exn + json" where
  "dict_get j key dflt =
     (case j of
        JObj kvs \<Rightarrow> Inr (get_or kvs key dflt)
      | _ \<Rightarrow> Inl (Exn AttributeError ''object has no attribute get''))"

text \<open>\<^verbatim>\<open>xs[:n]\<close>: a negative \<open>n\<close> counts from the end.\<close>

definition slice_to :: "int \<Rightarrow> 'a list \<Rightarrow> 'a list" where
  "slice_to n xs = (if 0 \<le> n then take (nat n) xs else take (length xs - nat (- n)) xs)"

text \<open>
  \<^verbatim>\<open>v[:n]\<close> on a parsed JSON value, as the sequence a \<^verbatim>\<open>for\<close> loop then runs over: a
  list gives its elements, a string its characters, anything else cannot be sliced.
\<close>

definition slice_json :: "int \<Rightarrow> json \<Rightarrow> exn + json list" where
  "slice_json n j =
     (case j of
        JArr xs \<Rightarrow> Inr (slice_to n xs)
      | JStr s \<Rightarrow> Inr (map (\<lambda>c. JStr [c]) (slice_to n s))
      | _ \<Rightarrow> Inl (Exn TypeError ''object is not subscriptable''))"

text \<open>The operand of \<^verbatim>\<open>/\<close> and \<^verbatim>\<open>-\<close>: an int, a float or a bool (an int in Python).\<close>

definition numeric_of :: "json \<Rightarrow> real option" where
  "numeric_of j =
     (case j of
        JInt n \<Rightarrow> Some (real_of_int n)
      | JFloat x \<Rightarrow> Some x
      | JBool b \<Rightarrow> Some (if b then 1 else 0)
      | _ \<Rightarrow> None)"

fun show_nat :: "nat \<Rightarrow> string" where
  "show_nat n =
     (if n < 10 then [''0123456789'' ! n]
      else show_nat (n div 10) @ [''0123456789'' ! (n mod 10)])"

definition show_int :: "int \<Rightarrow> string" where
  "show_int n = (if n < 0 then CHR ''-'' # show_nat (nat (- n)) else show_nat (nat n))"

text \<open>What an f-string writes for a value: \<^verbatim>\<open>str(v)\<close>.\<close>

definition py_str :: "env \<Rightarrow> json \<Rightarrow> string" where
  "py_str E j =
     (case j of
        JStr s \<Rightarrow> s
      | JInt n \<Rightarrow> show_int n
      | JBool b \<Rightarrow> (if b then ''True'' else ''False'')
      | JNull \<Rightarrow> ''None''
      | _ \<Rightarrow> repr_other E j)"

text \<open>\<^verbatim>\<open>str.strip()\<close>: the characters below 256 for which \<^verbatim>\<open>str.isspace\<close> holds.\<close>

definition is_space :: "char \<Rightarrow> bool" where
  "is_space c \<longleftrightarrow>
     c \<in> set [CHR 0x09, CHR 0x0A, CHR 0x0B, CHR 0x0C, CHR 0x0D, CHR 0x1C, CHR 0x1D,
              CHR 0x1E, CHR 0x1F, CHR 0x20, CHR 0x85, CHR 0xA0]"

definition strip :: "string \<Rightarrow> string" where
  "strip s = rev (dropWhile is_space (rev (dropWhile is_space s)))"

text \<open>
  \<^verbatim>\<open>s.replace(old, new)\<close>: the occurrences of \<open>old\<close> are found from the left and do not
  overlap; an empty \<open>old\<close> matches before every character and at the end.
\<close>

function replace :: "string \<Rightarrow> string \<Rightarrow> string \<Rightarrow> string" where
  "replace old new s =
     (if old = [] then new @ concat (map (\<lambda>c. c # new) s)
      else (case s of
              [] \<Rightarrow> []
            | c # cs \<Rightarrow>
                if take (length old) s = old
                then new @ replace old new (drop (length old) s)
                else c # replace old new cs))"
  by pat_completeness auto
termination
  by (relation "measure (\<lambda>(old, new, s). length s)") auto

text \<open>\<^verbatim>\<open>old in s\<close>: \<open>old\<close> occurs in \<open>s\<close>.\<close>

fun contains :: "string \<Rightarrow> string \<Rightarrow> bool" where
  "contains old [] = (old = [])"
| "contains old (c # cs) = (take (length old) (c # cs) = old \<or> contains old cs)"

subsection \<open>\<^verbatim>\<open>get_active_markets\<close>\<close>

text \<open>
  The value of \<^verbatim>\<open>response.json().get('markets', [])\<close> when the status is 200 and nothing
  raises; the empty list otherwise.
\<close>

definition get_active_markets :: "env \<Rightarrow> json" where
  "get_active_markets E =
     (case kalshi_get E of
        Raised e \<Rightarrow> JArr []
      | Response status body \<Rightarrow>
          if status = 200 then
            (case body of
               Inl e \<Rightarrow> JArr []
             | Inr j \<Rightarrow>
                 (case dict_get j ''markets'' (JArr []) of
                    Inl e \<Rightarrow> JArr []
                  | Inr markets \<Rightarrow> markets))
          else JArr [])"

subsection \<open>\<^verbatim>\<open>search_news\<close>\<close>

text \<open>The dict built from one article; \<^verbatim>\<open>article.get('source', {}).get('name', 'Unknown')\<close>.\<close>

definition article_source :: "json \<Rightarrow> exn + news_source" where
  "article_source article =
     (case dict_get article ''title'' (JStr '''') of
        Inl e \<Rightarrow> Inl e
      | Inr t \<Rightarrow>
     (case dict_get article ''description'' (JStr '''') of
        Inl e \<Rightarrow> Inl e
      | Inr d \<Rightarrow>
     (case dict_get article ''url'' (JStr '''') of
        Inl e \<Rightarrow> Inl e
      | Inr u \<Rightarrow>
     (case dict_get article ''source'' (JObj []) of
        Inl e \<Rightarrow> Inl e
      | Inr s \<Rightarrow>
     (case dict_get s ''name'' (JStr ''Unknown'') of
        Inl e \<Rightarrow> Inl e
      | Inr n \<Rightarrow>
          Inr \<lparr>src_title = t, src_description = d, src_url = u, src_name = n\<rparr>)))))"

text \<open>
  The loop \<^verbatim>\<open>for article in articles[:5]: sources.append(...)\<close>. The list \<open>sources\<close> is
  changed in place, so an exception in the middle leaves the sources appended before it.
\<close>

fun append_articles :: "json list \<Rightarrow> news_source list \<Rightarrow> news_source list \<times> exn option" where
  "append_articles [] sources = (sources, None)"
| "append_articles (a # as) sources =
     (case article_source a of
        Inl e \<Rightarrow> (sources, Some e)
      | Inr s \<Rightarrow> append_articles as (sources @ [s]))"

text \<open>The body of the first \<^verbatim>\<open>try\<close>: the sources afterwards, and the exception if one is raised.\<close>

definition newsapi_try :: "env \<Rightarrow> nat \<Rightarrow> string \<Rightarrow> news_source list \<Rightarrow> news_source list \<times> exn option" where
  "newsapi_try E i query sources =
     (case newsapi_get E i query of
        Raised e \<Rightarrow> (sources, Some e)
      | Response status body \<Rightarrow>
          if status = 200 then
            (case body of
               Inl e \<Rightarrow> (sources, Some e)
             | Inr j \<Rightarrow>
                 (case dict_get j ''articles'' (JArr []) of
                    Inl e \<Rightarrow> (sources, Some e)
                  | Inr articles \<Rightarrow>
                      (case slice_json 5 articles of
                         Inl e \<Rightarrow> (sources, Some e)
                       | Inr first5 \<Rightarrow> append_articles first5 sources)))
          else (sources, None))"

definition item_source :: "rss_item \<Rightarrow> news_source" where
  "item_source item =
     \<lparr>src_title = JStr (case item_title item of Some t \<Rightarrow> t | None \<Rightarrow> ''''),
      src_description = JStr '''',
      src_url = JStr (case item_link item of Some l \<Rightarrow> l | None \<Rightarrow> ''''),
      src_name = JStr ''Google News''\<rparr>"

definition rss_url :: "env \<Rightarrow> string \<Rightarrow> string" where
  "rss_url E query = ''https://news.google.com/rss/search?q='' @ url_quote E query @ ''&hl=en-US''"

text \<open>The body of the second \<^verbatim>\<open>try\<close>; \<open>Inl\<close> in the response is BeautifulSoup failing to parse.\<close>

definition rss_try :: "env \<Rightarrow> nat \<Rightarrow> string \<Rightarrow> news_source list \<Rightarrow> news_source list \<times> exn option" where
  "rss_try E i query sources =
     (case rss_get E i (rss_url E query) of
        Raised e \<Rightarrow> (sources, Some e)
      | Response status body \<Rightarrow>
          if status = 200 then
            (case body of
               Inl e \<Rightarrow> (sources, Some e)
             | Inr items \<Rightarrow> (sources @ map item_source (slice_to 5 items), None))
          else (sources, None))"

text \<open>
  The key is truthy when it is set and not empty. Each \<^verbatim>\<open>except Exception\<close> only prints,
  so the second component of each \<^verbatim>\<open>try\<close> body is dropped.
\<close>

definition key_configured :: "env \<Rightarrow> bool" where
  "key_configured E = (case news_api_key E of None \<Rightarrow> False | Some k \<Rightarrow> k \<noteq> [])"

definition primary_step :: "env \<Rightarrow> nat \<Rightarrow> string \<Rightarrow> news_source list" where
  "primary_step E i query =
     (if key_configured E then fst (newsapi_try E i query []) else [])"

definition search_news :: "env \<Rightarrow> nat \<Rightarrow> string \<Rightarrow> news_source list" where
  "search_news E i query =
     (let sources = primary_step E i query
      in if sources = [] then fst (rss_try E i query sources) else sources)"

subsection \<open>\<^verbatim>\<open>analyze_event\<close>\<close>

fun source_lines :: "env \<Rightarrow> nat \<Rightarrow> news_source list \<Rightarrow> string" where
  "source_lines E k [] = []"
| "source_lines E k (s # ss) =
     show_nat k @ ''. ['' @ py_str E (src_name s) @ ''] '' @ py_str E (src_title s)
       @ ''\<newline>'' @ source_lines E (Suc k) ss"

definition price_line :: "env \<Rightarrow> (string \<times> json) list \<Rightarrow> string" where
  "price_line E event =
     ''Current Market Price: '' @ py_str E (get_or event ''yes_bid'' (JInt 50)) @ ''%''"

definition build_context :: "env \<Rightarrow> (string \<times> json) list \<Rightarrow> news_source list \<Rightarrow> string" where
  "build_context E event sources =
     ''Event: '' @ py_str E (get_or event ''title'' (JStr ''N/A'')) @ ''\<newline>''
     @ ''Ticker: '' @ py_str E (get_or event ''ticker'' (JStr ''N/A'')) @ ''\<newline>''
     @ price_line E event @ ''\<newline>''
     @ ''\<newline>''
     @ ''Recent Sources:\<newline>''
     @ source_lines E 1 (slice_to 5 sources)"

definition instructions :: string where
  "instructions =
     ''\<newline>\<newline>Analyze this prediction market and provide your estimate in JSON:\<newline>''
     @ ''{\<newline>''
     @ ''    '' @ [CHR 0x22] @ ''estimated_probability'' @ [CHR 0x22] @ '': <0-1>,\<newline>''
     @ ''    '' @ [CHR 0x22] @ ''confidence'' @ [CHR 0x22] @ '': ''
         @ [CHR 0x22] @ ''LOW|MEDIUM|HIGH'' @ [CHR 0x22] @ '',\<newline>''
     @ ''    '' @ [CHR 0x22] @ ''reasoning'' @ [CHR 0x22] @ '': ''
         @ [CHR 0x22] @ ''<brief explanation>'' @ [CHR 0x22] @ ''\<newline>''
     @ ''}\<newline>\<newline>RESPOND ONLY WITH VALID JSON.''"

definition build_prompt :: "env \<Rightarrow> (string \<times> json) list \<Rightarrow> news_source list \<Rightarrow> string" where
  "build_prompt E event sources = build_context E event sources @ instructions"

text \<open>\<^verbatim>\<open>message.content[0].text\<close>.\<close>

definition first_text :: "content_block list \<Rightarrow> exn + string" where
  "first_text content =
     (case content of
        [] \<Rightarrow> Inl (Exn IndexError ''list index out of range'')
      | TextBlock t # _ \<Rightarrow> Inr t
      | OtherBlock # _ \<Rightarrow> Inl (Exn AttributeError ''object has no attribute text''))"

text \<open>The two \<^verbatim>\<open>replace\<close> calls between the two \<^verbatim>\<open>strip\<close> calls.\<close>

definition strip_fences :: "string \<Rightarrow> string" where
  "strip_fences response_text =
     strip (replace ''```'' '''' (replace ''```json\<newline>'' '''' (strip response_text)))"

text \<open>The body of the \<^verbatim>\<open>try\<close>.\<close>

definition model_reply :: "env \<Rightarrow> nat \<Rightarrow> string \<Rightarrow> exn + json" where
  "model_reply E i prompt =
     (case messages_create E i prompt of
        Inl e \<Rightarrow> Inl e
      | Inr content \<Rightarrow>
          (case first_text content of
             Inl e \<Rightarrow> Inl e
           | Inr response_text \<Rightarrow> json_loads E (strip_fences response_text)))"

text \<open>The dict of the \<^verbatim>\<open>except\<close> branch; \<open>msg\<close> is \<^verbatim>\<open>str(e)\<close>.\<close>

definition fallback_estimate :: "exn \<Rightarrow> json" where
  "fallback_estimate e =
     (case e of Exn c msg \<Rightarrow>
        JObj [(''estimated_probability'', JFloat (1 / 2)),
              (''confidence'', JStr ''LOW''),
              (''reasoning'', JStr (''Error: '' @ msg))])"

text \<open>
  The prompt is built before the \<^verbatim>\<open>try\<close>, with \<^verbatim>\<open>event.get\<close>: an event that is not a
  dict raises there.
\<close>

definition analyze_event :: "env \<Rightarrow> nat \<Rightarrow> json \<Rightarrow> news_source list \<Rightarrow> exn + json" where
  "analyze_event E i event sources =
     (case event of
        JObj kvs \<Rightarrow>
          Inr (case model_reply E i (build_prompt E kvs sources) of
                 Inl e \<Rightarrow> fallback_estimate e
               | Inr analysis \<Rightarrow> analysis)
      | _ \<Rightarrow> Inl (Exn AttributeError ''object has no attribute get''))"

subsection \<open>\<^verbatim>\<open>run_analysis\<close>\<close>

text \<open>The \<^verbatim>\<open>if\<close>/\<^verbatim>\<open>elif\<close> chain that sets \<^verbatim>\<open>rec\<close>.\<close>

definition recommend :: "json \<Rightarrow> real \<Rightarrow> recommendation" where
  "recommend conf e =
     (if conf = JStr ''HIGH'' \<and> e > 0.10 then STRONG_BUY
      else if conf = JStr ''HIGH'' \<and> e > 0.05 then BUY
      else if conf = JStr ''HIGH'' \<and> e < - 0.10 then STRONG_SELL
      else if e > 0.15 then BUY
      else if e < - 0.15 then SELL
      else HOLD)"

text \<open>The body of the loop over the markets, for the market at position \<open>i\<close>.\<close>

definition analyze_market :: "env \<Rightarrow> nat \<Rightarrow> json \<Rightarrow> exn + analysis_result" where
  "analyze_market E i market =
     (case market of
        JObj m \<Rightarrow>
          (case slice_json 50 (get_or m ''title'' (JStr '''')) of
             Inl e \<Rightarrow> Inl e
           | Inr shown \<Rightarrow>
          (let query = py_str E (get_or m ''title'' (JStr '''')) @ '' ''
                         @ py_str E (get_or m ''subtitle'' (JStr ''''));
               sources = search_news E i query
           in
          (case analyze_event E i market sources of
             Inl e \<Rightarrow> Inl e
           | Inr analysis \<Rightarrow>
          (case numeric_of (get_or m ''yes_bid'' (JInt 50)) of
             None \<Rightarrow> Inl (Exn TypeError ''unsupported operand type(s) for /'')
           | Some bid \<Rightarrow>
          (let market_price' = bid / 100.0 in
          (case dict_get analysis ''estimated_probability'' (JFloat 0.5) of
             Inl e \<Rightarrow> Inl e
           | Inr estimated_prob \<Rightarrow>
          (case numeric_of estimated_prob of
             None \<Rightarrow> Inl (Exn TypeError ''unsupported operand type(s) for -'')
           | Some p \<Rightarrow>
          (let edge' = p - market_price' in
          (case dict_get analysis ''confidence'' (JStr ''LOW'') of
             Inl e \<Rightarrow> Inl e
           | Inr confidence' \<Rightarrow>
          (case dict_get analysis ''reasoning'' (JStr '''') of
             Inl e \<Rightarrow> Inl e
           | Inr reasoning' \<Rightarrow>
               Inr \<lparr>ticker = get_or m ''ticker'' (JStr ''N/A''),
                    title = get_or m ''title'' (JStr ''N/A''),
                    market_price = market_price',
                    estimated_probability = estimated_prob,
                    edge = edge',
                    edge_percent = format_percent E (edge' * 100),
                    confidence = confidence',
                    recommendation = recommend confidence' edge',
                    reasoning = reasoning',
                    sources_count = length sources\<rparr>))))))))))
      | _ \<Rightarrow> Inl (Exn AttributeError ''object has no attribute get''))"

text \<open>The loop: the first market that raises ends the run, and no result is returned.\<close>

fun run_markets :: "env \<Rightarrow> nat \<Rightarrow> json list \<Rightarrow> exn + analysis_result list" where
  "run_markets E i [] = Inr []"
| "run_markets E i (market # markets) =
     (case analyze_market E i market of
        Inl e \<Rightarrow> Inl e
      | Inr r \<Rightarrow>
          (case run_markets E (Suc i) markets of
             Inl e \<Rightarrow> Inl e
           | Inr rs \<Rightarrow> Inr (r # rs)))"

definition run_analysis :: "env \<Rightarrow> int \<Rightarrow> exn + analysis_result list" where
  "run_analysis E max_events =
     (case slice_json max_events (get_active_markets E) of
        Inl e \<Rightarrow> Inl e
      | Inr markets \<Rightarrow> run_markets E 0 markets)"

subsection \<open>The specification's wording\<close>



text \<open>
  The fallback Estimate in the specification's words: exactly the three keys, probability
  0.5, confidence LOW, and a reasoning that starts with \<^verbatim>\<open>Error:\<close>.
\<close>

definition is_fallback_estimate :: "json \<Rightarrow> bool" where
  "is_fallback_estimate j =
     (case j of
        JObj kvs \<Rightarrow>
          map fst kvs = [''estimated_probability'', ''confidence'', ''reasoning'']
          \<and> map_of kvs ''estimated_probability'' = Some (JFloat 0.5)
          \<and> map_of kvs ''confidence'' = Some (JStr ''LOW'')
          \<and> (case map_of kvs ''reasoning'' of
                Some (JStr r) \<Rightarrow> take 6 r = ''Error:''
              | _ \<Rightarrow> False)
      | _ \<Rightarrow> False)"

subsection \<open>Sample data\<close>

text \<open>
  Two markets priced at 40 and 60 percent, a market without \<^verbatim>\<open>yes_bid\<close>, and model replies.
  \<open>sample_loads\<close> is \<^verbatim>\<open>json.loads\<close> on the texts used below; \<open>sample_quote\<close> and
  \<open>sample_format\<close> are \<^verbatim>\<open>requests.utils.quote\<close> and the percent format on the values used.
\<close>

definition market_a :: json where
  "market_a = JObj [(''ticker'', JStr ''KXRAIN''), (''title'', JStr ''Rain in NYC''),
                    (''subtitle'', JStr ''tomorrow''), (''yes_bid'', JInt 40)]"

definition market_b :: json where
  "market_b = JObj [(''ticker'', JStr ''KXSNOW''), (''title'', JStr ''Snow in NYC''),
                    (''subtitle'', JStr ''tomorrow''), (''yes_bid'', JInt 60)]"

definition market_no_bid :: "(string \<times> json) list" where
  "market_no_bid = [(''ticker'', JStr ''KXWIND''), (''title'', JStr ''Wind in NYC'')]"

definition reply_high :: string where
  "reply_high = ''{\"estimated_probability\": 0.6, \"confidence\": \"HIGH\", \"reasoning\": \"forecast\"}''"

definition reply_low :: string where
  "reply_low = ''{\"estimated_probability\": 0.5, \"confidence\": \"LOW\", \"reasoning\": \"unclear\"}''"

definition reply_no_reasoning :: string where
  "reply_no_reasoning = ''{\"estimated_probability\": 0.9, \"confidence\": \"HIGH\"}''"

definition reply_string_prob :: string where
  "reply_string_prob = ''{\"estimated_probability\": \"0.7\", \"confidence\": \"HIGH\", \"reasoning\": \"likely\"}''"

definition reply_sell :: string where
  "reply_sell = ''{\"estimated_probability\": 0.28, \"confidence\": \"HIGH\", \"reasoning\": \"dry spell\"}''"

definition reply_prose :: string where
  "reply_prose = ''I cannot estimate this market.''"

definition estimate_high :: json where
  "estimate_high = JObj [(''estimated_probability'', JFloat 0.6), (''confidence'', JStr ''HIGH''),
                         (''reasoning'', JStr ''forecast'')]"

definition estimate_low :: json where
  "estimate_low = JObj [(''estimated_probability'', JFloat 0.5), (''confidence'', JStr ''LOW''),
                        (''reasoning'', JStr ''unclear'')]"

definition estimate_no_reasoning :: json where
  "estimate_no_reasoning =
     JObj [(''estimated_probability'', JFloat 0.9), (''confidence'', JStr ''HIGH'')]"

definition estimate_string_prob :: json where
  "estimate_string_prob =
     JObj [(''estimated_probability'', JStr ''0.7''), (''confidence'', JStr ''HIGH''),
           (''reasoning'', JStr ''likely'')]"

definition estimate_sell :: json where
  "estimate_sell =
     JObj [(''estimated_probability'', JFloat 0.28), (''confidence'', JStr ''HIGH''),
           (''reasoning'', JStr ''dry spell'')]"

definition sample_loads :: "string \<Rightarrow> exn + json" where
  "sample_loads s =
     (if s = reply_high then Inr estimate_high
      else if s = reply_low then Inr estimate_low
      else if s = reply_no_reasoning then Inr estimate_no_reasoning
      else if s = reply_string_prob then Inr estimate_string_prob
      else if s = reply_sell then Inr estimate_sell
      else Inl (Exn JSONDecodeError ''Expecting value: line 1 column 1 (char 0)''))"

definition sample_quote :: "string \<Rightarrow> string" where
  "sample_quote s =
     (if s = ''Rain in NYC tomorrow'' then ''Rain%20in%20NYC%20tomorrow''
      else if s = ''Snow in NYC tomorrow'' then ''Snow%20in%20NYC%20tomorrow''
      else if s = ''Wind in NYC '' then ''Wind%20in%20NYC%20''
      else s)"

definition sample_format :: "real \<Rightarrow> string" where
  "sample_format x =
     (if x = 20 then ''+20.0%'' else if x = - 10 then ''-10.0%''
      else if x = - 12 then ''-12.0%'' else if x = 10 then ''+10.0%'' else ''+0.0%'')"

definition sample_items :: "rss_item list" where
  "sample_items =
     [\<lparr>item_title = Some ''Storm warning'', item_link = Some ''https://example.org/1''\<rparr>,
      \<lparr>item_title = Some ''Weekend forecast'', item_link = Some ''https://example.org/2''\<rparr>,
      \<lparr>item_title = None, item_link = Some ''https://example.org/3''\<rparr>]"

text \<open>
  No news key; the market service answers with the two markets; the feed answers with three
  items; the model answers the first market with a fenced HIGH estimate and the others with
  a LOW one.
\<close>

definition sample_env :: env where
  "sample_env =
     \<lparr>news_api_key = None,
      kalshi_get = Response 200 (Inr (JObj [(''markets'', JArr [market_a, market_b])])),
      newsapi_get = (\<lambda>i q. Raised (Exn RequestException ''connection refused'')),
      rss_get = (\<lambda>i u. Response 200 (Inr sample_items)),
      messages_create =
        (\<lambda>i p. Inr [TextBlock (if i = 0 then ''```json\<newline>'' @ reply_high @ ''\<newline>```''
                                else reply_low)]),
      json_loads = sample_loads,
      url_quote = sample_quote,
      repr_other = (\<lambda>j. []),
      format_percent = sample_format\<rparr>"

text \<open>What \<^verbatim>\<open>run_analysis\<close> returns for the two sample markets.\<close>

definition result_a :: analysis_result where
  "result_a =
     \<lparr>ticker = JStr ''KXRAIN'', title = JStr ''Rain in NYC'', market_price = 0.4,
      estimated_probability = JFloat 0.6, edge = 0.2, edge_percent = ''+20.0%'',
      confidence = JStr ''HIGH'', recommendation = STRONG_BUY, reasoning = JStr ''forecast'',
      sources_count = 3\<rparr>"

definition result_b :: analysis_result where
  "result_b =
     \<lparr>ticker = JStr ''KXSNOW'', title = JStr ''Snow in NYC'', market_price = 0.6,
      estimated_probability = JFloat 0.5, edge = - 0.1, edge_percent = ''-10.0%'',
      confidence = JStr ''LOW'', recommendation = HOLD, reasoning = JStr ''unclear'',
      sources_count = 3\<rparr>"

definition result_no_bid :: analysis_result where
  "result_no_bid =
     \<lparr>ticker = JStr ''KXWIND'', title = JStr ''Wind in NYC'', market_price = 0.5,
      estimated_probability = JFloat 0.5, edge = 0, edge_percent = ''+0.0%'',
      confidence = JStr ''LOW'', recommendation = HOLD, reasoning = JStr ''unclear'',
      sources_count = 3\<rparr>"

text \<open>Variations of the sample world: what the model, the market service and the news service answer.\<close>

definition env_timeout :: env where
  "env_timeout =
     sample_env\<lparr>messages_create := (\<lambda>i p. Inl (Exn RequestException ''Request timed out.''))\<rparr>"

definition env_prose :: env where
  "env_prose = sample_env\<lparr>messages_create := (\<lambda>i p. Inr [TextBlock reply_prose])\<rparr>"

definition env_no_reasoning :: env where
  "env_no_reasoning =
     sample_env\<lparr>messages_create := (\<lambda>i p. Inr [TextBlock reply_no_reasoning])\<rparr>"

definition env_string_prob :: env where
  "env_string_prob =
     sample_env\<lparr>messages_create := (\<lambda>i p. Inr [TextBlock reply_string_prob])\<rparr>"

definition env_sell :: env where
  "env_sell = sample_env\<lparr>messages_create := (\<lambda>i p. Inr [TextBlock reply_sell])\<rparr>"

definition result_sell :: analysis_result where
  "result_sell =
     \<lparr>ticker = JStr ''KXRAIN'', title = JStr ''Rain in NYC'', market_price = 0.4,
      estimated_probability = JFloat 0.28, edge = - 0.12, edge_percent = ''-12.0%'',
      confidence = JStr ''HIGH'', recommendation = STRONG_SELL, reasoning = JStr ''dry spell'',
      sources_count = 3\<rparr>"

definition env_markets_down :: env where
  "env_markets_down =
     sample_env\<lparr>kalshi_get := Raised (Exn RequestException ''connection refused'')\<rparr>"

definition env_markets_503 :: env where
  "env_markets_503 =
     sample_env\<lparr>kalshi_get := Response 503 (Inl (Exn JSONDecodeError ''Expecting value''))\<rparr>"

definition sample_article :: json where
  "sample_article =
     JObj [(''title'', JStr ''Rain expected''), (''description'', JStr ''A front moves in.''),
           (''url'', JStr ''https://example.org/a''),
           (''source'', JObj [(''name'', JStr ''Example Wire'')])]"

definition env_with_news :: env where
  "env_with_news =
     sample_env\<lparr>news_api_key := Some ''key'',
                newsapi_get := (\<lambda>i q. Response 200 (Inr (JObj [(''articles'', JArr [sample_article])])))\<rparr>"

text \<open>A provider step whose \<^verbatim>\<open>try\<close> body raises: the request fails, or the body does not parse.\<close>

definition step_raises :: "'a http_result \<Rightarrow> bool" where
  "step_raises r =
     (case r of
        Raised e \<Rightarrow> True
      | Response status body \<Rightarrow>
          status = 200 \<and> (case body of Inl e \<Rightarrow> True | Inr v \<Rightarrow> False))"

definition env_all_down :: env where
  "env_all_down =
     sample_env\<lparr>news_api_key := Some ''key'',
                rss_get := (\<lambda>i u. Response 200 (Inl (Exn OtherException ''not well-formed'')))\<rparr>"

text \<open>
  The prompt for a market priced at 50 percent, with the price line written out: the text
  of \<^verbatim>\<open>context\<close> followed by the fixed instructions.
\<close>

definition prompt_at_50 :: "env \<Rightarrow> (string \<times> json) list \<Rightarrow> news_source list \<Rightarrow> string" where
  "prompt_at_50 E event sources =
     ''Event: '' @ py_str E (get_or event ''title'' (JStr ''N/A'')) @ ''\<newline>''
     @ ''Ticker: '' @ py_str E (get_or event ''ticker'' (JStr ''N/A'')) @ ''\<newline>''
     @ ''Current Market Price: 50%'' @ ''\<newline>''
     @ ''\<newline>''
     @ ''Recent Sources:\<newline>''
     @ source_lines E 1 (slice_to 5 sources)
     @ instructions"

text \<open>
  The prompt for the sample market without \<^verbatim>\<open>yes_bid\<close> and the three sample feed items,
  as one text; a model that answers this prompt, and no other, with the HIGH estimate; and
  the results of that market when the model answers so and when the request times out.
\<close>

definition no_bid_prompt :: string where
  "no_bid_prompt =
     ''Event: Wind in NYC\<newline>''
     @ ''Ticker: KXWIND\<newline>''
     @ ''Current Market Price: 50%\<newline>''
     @ ''\<newline>''
     @ ''Recent Sources:\<newline>''
     @ ''1. [Google News] Storm warning\<newline>''
     @ ''2. [Google News] Weekend forecast\<newline>''
     @ ''3. [Google News] \<newline>''
     @ instructions"

definition env_prompt_check :: env where
  "env_prompt_check =
     sample_env\<lparr>messages_create :=
       (\<lambda>i p. if p = no_bid_prompt then Inr [TextBlock reply_high]
               else Inl (Exn OtherException ''unexpected prompt''))\<rparr>"

definition result_prompt_check :: analysis_result where
  "result_prompt_check =
     \<lparr>ticker = JStr ''KXWIND'', title = JStr ''Wind in NYC'', market_price = 0.5,
      estimated_probability = JFloat 0.6, edge = 0.1, edge_percent = ''+10.0%'',
      confidence = JStr ''HIGH'', recommendation = BUY, reasoning = JStr ''forecast'',
      sources_count = 3\<rparr>"

definition result_no_bid_timeout :: analysis_result where
  "result_no_bid_timeout =
     \<lparr>ticker = JStr ''KXWIND'', title = JStr ''Wind in NYC'', market_price = 0.5,
      estimated_probability = JFloat 0.5, edge = 0, edge_percent = ''+0.0%'',
      confidence = JStr ''LOW'', recommendation = HOLD,
      reasoning = JStr ''Error: Request timed out.'', sources_count = 3\<rparr>"

text \<open>
  The HIGH reply inside fences that the two \<^verbatim>\<open>replace\<close> calls do not remove whole: the
  opening marker followed by a carriage return and a line feed, and the opening marker
  with the language in capitals.
\<close>

definition fenced_crlf :: string where
  "fenced_crlf =
     ''```json'' @ [CHR 0x0D, CHR 0x0A] @ reply_high @ [CHR 0x0D, CHR 0x0A] @ ''```''"

definition fenced_upper :: string where
  "fenced_upper = ''```JSON\<newline>'' @ reply_high @ ''\<newline>```''"

definition env_reply :: "string \<Rightarrow> env" where
  "env_reply text = sample_env\<lparr>messages_create := (\<lambda>i p. Inr [TextBlock text])\<rparr>"

section \<open>Properties\<close>

subsection \<open>One market\<close>


text \<open>What a result of the loop body says about the market and the analysis it came from.\<close>

lemma analyze_market_Inr:
  assumes "analyze_market E i market = Inr r"
  obtains m analysis bid est p where
    "market = JObj m"
    "analyze_event E i market
       (search_news E i (py_str E (get_or m ''title'' (JStr '''')) @ '' ''
                          @ py_str E (get_or m ''subtitle'' (JStr '''')))) = Inr analysis"
    "numeric_of (get_or m ''yes_bid'' (JInt 50)) = Some bid"
    "dict_get analysis ''estimated_probability'' (JFloat 0.5) = Inr est"
    "numeric_of est = Some p"
    "market_price r = bid / 100"
    "estimated_probability r = est"
    "edge r = p - bid / 100"
    "dict_get analysis ''confidence'' (JStr ''LOW'') = Inr (confidence r)"
    "dict_get analysis ''reasoning'' (JStr '''') = Inr (reasoning r)"
    "recommendation r = recommend (confidence r) (edge r)"
  using assms
  unfolding analyze_market_def Let_def
  by (auto split: json.splits sum.splits option.splits)

lemma run_markets_member:
  "run_markets E i markets = Inr rs \<Longrightarrow> r \<in> set rs \<Longrightarrow>
     \<exists>k market. market \<in> set markets \<and> analyze_market E k market = Inr r"
proof (induction markets arbitrary: i rs)
  case Nil
  then show ?case by simp
next
  case (Cons market markets)
  then show ?case
    by (fastforce split: sum.splits)
qed

lemma run_markets_length:
  "run_markets E i markets = Inr rs \<Longrightarrow> length rs = length markets"
  by (induction markets arbitrary: i rs) (auto split: sum.splits)

subsection \<open>The sample world, evaluated\<close>

lemmas sample_texts =
  reply_high_def reply_low_def reply_no_reasoning_def reply_string_prob_def reply_sell_def
  reply_prose_def

lemma sample_analysis_a:
  "analyze_event sample_env 0 market_a srcs = Inr estimate_high"
  by (simp add: analyze_event_def market_a_def model_reply_def sample_env_def first_text_def
      strip_fences_def strip_def is_space_def sample_loads_def sample_texts)

lemma sample_analysis_b:
  "analyze_event sample_env (Suc 0) (JObj m) srcs = Inr estimate_low"
  by (simp add: analyze_event_def model_reply_def sample_env_def first_text_def
      strip_fences_def strip_def is_space_def sample_loads_def sample_texts)

lemma sample_search: "search_news sample_env i q = map item_source sample_items"
  by (simp add: sample_env_def search_news_def primary_step_def key_configured_def
      rss_try_def sample_items_def slice_to_def)

lemma sample_market_a:
  "analyze_market sample_env 0 market_a = Inr result_a"
  by (simp add: analyze_market_def sample_analysis_a [unfolded market_a_def] market_a_def
      get_or_def slice_json_def Let_def numeric_of_def estimate_high_def dict_get_def
      recommend_def sample_search result_a_def sample_items_def)
     (simp add: sample_env_def sample_format_def)

lemma sample_market_b:
  "analyze_market sample_env (Suc 0) market_b = Inr result_b"
  by (simp add: analyze_market_def sample_analysis_b market_b_def
      get_or_def slice_json_def Let_def numeric_of_def estimate_low_def dict_get_def
      recommend_def sample_search result_b_def sample_items_def)
     (simp add: sample_env_def sample_format_def)

lemma sample_market_no_bid:
  "analyze_market sample_env (Suc 0) (JObj market_no_bid) = Inr result_no_bid"
  by (simp add: analyze_market_def sample_analysis_b market_no_bid_def
      get_or_def slice_json_def Let_def numeric_of_def estimate_low_def dict_get_def
      recommend_def sample_search result_no_bid_def sample_items_def)
     (simp add: sample_env_def sample_format_def)

lemma sample_markets:
  "get_active_markets sample_env = JArr [market_a, market_b]"
  by (simp add: get_active_markets_def sample_env_def dict_get_def get_or_def)

lemma sample_run:
  "run_analysis sample_env 10 = Inr [result_a, result_b]"
  by (simp add: run_analysis_def sample_markets slice_json_def slice_to_def
      sample_market_a sample_market_b)

subsection \<open>The recommendation rules\<close>



lemma sample_market_sell:
  "analyze_market env_sell 0 market_a = Inr result_sell"
proof -
  have "analyze_event env_sell 0 market_a srcs = Inr estimate_sell" for srcs
    by (simp add: analyze_event_def market_a_def model_reply_def env_sell_def sample_env_def
        first_text_def strip_fences_def strip_def is_space_def sample_loads_def sample_texts)
  moreover have "search_news env_sell i q = map item_source sample_items" for i q
    by (simp add: env_sell_def sample_env_def search_news_def primary_step_def
        key_configured_def rss_try_def sample_items_def slice_to_def)
  ultimately show ?thesis
    by (simp add: analyze_market_def market_a_def get_or_def slice_json_def Let_def
        numeric_of_def estimate_sell_def dict_get_def recommend_def result_sell_def
        sample_items_def)
       (simp add: env_sell_def sample_env_def sample_format_def)
qed

text \<open>
  Claim C4, as stated, fails: with confidence HIGH and an edge of -0.12, which lies
  strictly between -0.15 and -0.10, rule 3 matches and the recommendation is STRONG_SELL,
  not HOLD. The sample market priced at 40 percent with a HIGH estimate of 0.28 is such a
  case.
\<close>

theorem high_confidence_gap_counterexample:
  "- 0.15 < (- 0.12 :: real) \<and> (- 0.12 :: real) < - 0.10
   \<and> recommend (JStr ''HIGH'') (- 0.12) = STRONG_SELL
   \<and> recommend (JStr ''HIGH'') (- 0.12) \<noteq> HOLD
   \<and> analyze_market env_sell 0 market_a = Inr result_sell
   \<and> confidence result_sell = JStr ''HIGH''
   \<and> edge result_sell = - 0.12
   \<and> recommendation result_sell = STRONG_SELL"
  using sample_market_sell by (simp add: recommend_def result_sell_def)

text \<open>
  Claim C4, amended. With confidence HIGH, an edge strictly between -0.15 and -0.10
  matches rule 3 and gives STRONG_SELL; the edges for which no rule matches, so that the
  classification falls through to HOLD, are exactly those from -0.10 to 0.05, both
  included.
\<close>

theorem high_confidence_hold_region:
  "(- 0.15 < e \<and> e < - 0.10 \<longrightarrow> recommend (JStr ''HIGH'') e = STRONG_SELL)
   \<and> (recommend (JStr ''HIGH'') e = HOLD \<longleftrightarrow> - 0.10 \<le> e \<and> e \<le> 0.05)"
  by (auto simp: recommend_def)

theorem high_confidence_hold_region_witness:
  "- 0.15 < (- 0.12 :: real) \<and> (- 0.12 :: real) < - 0.10
   \<and> recommend (JStr ''HIGH'') (- 0.12) = STRONG_SELL
   \<and> - 0.10 \<le> (- 0.07 :: real) \<and> (- 0.07 :: real) \<le> 0.05
   \<and> recommend (JStr ''HIGH'') (- 0.07) = HOLD"
  using high_confidence_hold_region [of "- 0.12"] high_confidence_hold_region [of "- 0.07"]
  by simp

subsection \<open>The edge\<close>

text \<open>
  Claim C2. In every result that \<^verbatim>\<open>run_analysis\<close> returns, the estimated probability is
  a number and the edge is that number minus the market price of the same result.
\<close>

theorem edge_is_difference:
  assumes "run_analysis E max_events = Inr rs" and "r \<in> set rs"
  shows "Some (edge r) =
           map_option (\<lambda>p. p - market_price r) (numeric_of (estimated_probability r))"
proof -
  from assms obtain markets where "run_markets E 0 markets = Inr rs"
    by (auto simp: run_analysis_def split: sum.splits)
  with assms(2) obtain k market where "analyze_market E k market = Inr r"
    using run_markets_member by blast
  then show ?thesis
    by (rule analyze_market_Inr) simp
qed

theorem edge_is_difference_witness:
  "run_analysis sample_env 10 = Inr [result_a, result_b]
   \<and> Some (edge result_b)
       = map_option (\<lambda>p. p - market_price result_b)
           (numeric_of (estimated_probability result_b))
   \<and> edge result_b = - 0.1"
  using edge_is_difference [OF sample_run, of result_b] sample_run
  by (simp add: result_b_def)

lemma contains_Nil [simp]: "contains [] s"
  by (cases s) simp_all

lemma contains_appendI: "contains old (pre @ old @ post)"
proof (induction pre)
  case Nil
  show ?case by (cases old) simp_all
next
  case (Cons c pre)
  then show ?case by simp
qed

lemma build_prompt_at_50:
  assumes "map_of m ''yes_bid'' = None"
  shows "build_prompt E m sources = prompt_at_50 E m sources"
proof -
  from assms have "get_or m ''yes_bid'' (JInt 50) = JInt 50"
    by (simp add: get_or_def)
  then have "price_line E m = ''Current Market Price: 50%''"
    by (simp add: price_line_def py_str_def show_int_def)
  then show ?thesis
    by (simp add: build_prompt_def build_context_def prompt_at_50_def)
qed

lemma prompt_at_50_has_line:
  "contains ''Current Market Price: 50%'' (prompt_at_50 E m sources)"
proof -
  have "prompt_at_50 E m sources =
      (''Event: '' @ py_str E (get_or m ''title'' (JStr ''N/A'')) @ ''\<newline>''
       @ ''Ticker: '' @ py_str E (get_or m ''ticker'' (JStr ''N/A'')) @ ''\<newline>'')
      @ ''Current Market Price: 50%''
      @ (''\<newline>\<newline>Recent Sources:\<newline>'' @ source_lines E 1 (slice_to 5 sources) @ instructions)"
    by (simp add: prompt_at_50_def)
  then show ?thesis
    by (simp only: contains_appendI)
qed

text \<open>
  Claim C10. A market without a \<^verbatim>\<open>yes_bid\<close> field is priced at 0.5: the market price of
  its result is 0.5 and its edge is the estimated probability minus 0.5. The prompt built
  for such a market, whatever the sources, is the text \<open>prompt_at_50\<close>, which has the line
  \<^verbatim>\<open>Current Market Price: 50%\<close>, and this is the text sent to the model: the estimator's
  answer is the model's answer to exactly that prompt (the fallback when the request with
  that prompt raises, the parsed reply when the reply to that prompt parses), and the
  probability and the confidence of the market's result are read from it.
\<close>

theorem missing_yes_bid_defaults:
  assumes "map_of m ''yes_bid'' = None" and "analyze_market E i (JObj m) = Inr r"
  shows "market_price r = 0.5
       \<and> Some (edge r) = map_option (\<lambda>p. p - 0.5) (numeric_of (estimated_probability r))
       \<and> price_line E m = ''Current Market Price: 50%''
       \<and> build_prompt E m sources =
           ''Event: '' @ py_str E (get_or m ''title'' (JStr ''N/A'')) @ ''\<newline>''
           @ ''Ticker: '' @ py_str E (get_or m ''ticker'' (JStr ''N/A'')) @ ''\<newline>''
           @ ''Current Market Price: 50%'' @ ''\<newline>\<newline>Recent Sources:\<newline>''
           @ source_lines E 1 (slice_to 5 sources) @ instructions
       \<and> build_prompt E m sources = prompt_at_50 E m sources
       \<and> contains ''Current Market Price: 50%'' (prompt_at_50 E m sources)
       \<and> (messages_create E i (prompt_at_50 E m sources) = Inl e \<longrightarrow>
            analyze_event E i (JObj m) sources = Inr (fallback_estimate e))
       \<and> (messages_create E i (prompt_at_50 E m sources) = Inr (TextBlock text # blocks)
            \<and> json_loads E (strip_fences text) = Inr a \<longrightarrow>
            analyze_event E i (JObj m) sources = Inr a)
       \<and> (let market_sources =
                 search_news E i (py_str E (get_or m ''title'' (JStr '''')) @ '' ''
                                    @ py_str E (get_or m ''subtitle'' (JStr '''')))
          in (messages_create E i (prompt_at_50 E m market_sources) = Inl e \<longrightarrow>
                estimated_probability r = JFloat 0.5 \<and> confidence r = JStr ''LOW'')
           \<and> (messages_create E i (prompt_at_50 E m market_sources) = Inr (TextBlock text # blocks)
                \<and> json_loads E (strip_fences text) = Inr a \<longrightarrow>
                dict_get a ''estimated_probability'' (JFloat 0.5) = Inr (estimated_probability r)
                \<and> dict_get a ''confidence'' (JStr ''LOW'') = Inr (confidence r)))"
proof -
  from assms(1) have bid: "get_or m ''yes_bid'' (JInt 50) = JInt 50"
    by (simp add: get_or_def)
  have line: "price_line E m = ''Current Market Price: 50%''"
    by (simp add: price_line_def bid py_str_def show_int_def)
  have prompt: "build_prompt E m srcs = prompt_at_50 E m srcs" for srcs
    using assms(1) by (rule build_prompt_at_50)
  define S where "S = search_news E i (py_str E (get_or m ''title'' (JStr '''')) @ '' ''
                                        @ py_str E (get_or m ''subtitle'' (JStr '''')))"
  from assms(2) obtain analysis b est p where
      an: "analyze_event E i (JObj m) S = Inr analysis"
      and b: "numeric_of (get_or m ''yes_bid'' (JInt 50)) = Some b"
      and price: "market_price r = b / 100"
      and est: "estimated_probability r = est" "numeric_of est = Some p"
      and dest: "dict_get analysis ''estimated_probability'' (JFloat 0.5) = Inr est"
      and dconf: "dict_get analysis ''confidence'' (JStr ''LOW'') = Inr (confidence r)"
      and edge: "edge r = p - b / 100"
    unfolding S_def by (rule analyze_market_Inr) auto
  from b have "b = 50"
    by (simp add: bid numeric_of_def)
  with price est edge have 1: "market_price r = 0.5
       \<and> Some (edge r) = map_option (\<lambda>p. p - 0.5) (numeric_of (estimated_probability r))"
    by simp
  have 2: "build_prompt E m sources =
           ''Event: '' @ py_str E (get_or m ''title'' (JStr ''N/A'')) @ ''\<newline>''
           @ ''Ticker: '' @ py_str E (get_or m ''ticker'' (JStr ''N/A'')) @ ''\<newline>''
           @ ''Current Market Price: 50%'' @ ''\<newline>\<newline>Recent Sources:\<newline>''
           @ source_lines E 1 (slice_to 5 sources) @ instructions"
    using line by (simp add: build_prompt_def build_context_def)
  have 3: "analyze_event E i (JObj m) srcs = Inr (fallback_estimate e)"
    if "messages_create E i (prompt_at_50 E m srcs) = Inl e" for srcs
    using that by (simp add: analyze_event_def model_reply_def prompt)
  have 4: "analyze_event E i (JObj m) srcs = Inr a"
    if "messages_create E i (prompt_at_50 E m srcs) = Inr (TextBlock text # blocks)"
      "json_loads E (strip_fences text) = Inr a" for srcs
    using that by (simp add: analyze_event_def model_reply_def first_text_def prompt)
  have 5: "estimated_probability r = JFloat 0.5 \<and> confidence r = JStr ''LOW''"
    if "messages_create E i (prompt_at_50 E m S) = Inl e"
  proof -
    from 3 [OF that] an have "analysis = fallback_estimate e" by simp
    with dest dconf est(1) show ?thesis
      by (cases e) (simp add: fallback_estimate_def dict_get_def get_or_def)
  qed
  have 6: "dict_get a ''estimated_probability'' (JFloat 0.5) = Inr (estimated_probability r)
        \<and> dict_get a ''confidence'' (JStr ''LOW'') = Inr (confidence r)"
    if "messages_create E i (prompt_at_50 E m S) = Inr (TextBlock text # blocks)"
      "json_loads E (strip_fences text) = Inr a"
  proof -
    from 4 [OF that] an have "analysis = a" by simp
    with dest dconf est(1) show ?thesis by simp
  qed
  from 1 line 2 prompt [of sources] prompt_at_50_has_line [of E m sources]
    3 [of sources] 4 [of sources] 5 6
  show ?thesis
    unfolding Let_def S_def [symmetric] by blast
qed

lemma no_bid_prompt_built:
  "prompt_at_50 E market_no_bid (map item_source sample_items) = no_bid_prompt"
  by (simp add: prompt_at_50_def market_no_bid_def get_or_def py_str_def sample_items_def
      item_source_def slice_to_def no_bid_prompt_def)

lemma prompt_check_market_no_bid:
  "analyze_market env_prompt_check 0 (JObj market_no_bid) = Inr result_prompt_check"
proof -
  have s: "search_news env_prompt_check i q = map item_source sample_items" for i q
    by (simp add: env_prompt_check_def sample_env_def search_news_def primary_step_def
        key_configured_def rss_try_def sample_items_def slice_to_def)
  have h: "map_of market_no_bid ''yes_bid'' = None"
    by (simp add: market_no_bid_def)
  have m: "messages_create env_prompt_check 0 no_bid_prompt = Inr [TextBlock reply_high]"
    by (simp add: env_prompt_check_def)
  have j: "json_loads env_prompt_check (strip_fences reply_high) = Inr estimate_high"
    by (simp add: env_prompt_check_def sample_env_def strip_fences_def strip_def is_space_def
        sample_loads_def sample_texts replace.simps)
  have "analyze_event env_prompt_check 0 (JObj market_no_bid) (map item_source sample_items)
      = Inr estimate_high"
    by (simp add: analyze_event_def model_reply_def build_prompt_at_50 [OF h]
        no_bid_prompt_built first_text_def m j)
  then show ?thesis
    by (simp add: analyze_market_def s market_no_bid_def get_or_def slice_json_def Let_def
        numeric_of_def estimate_high_def dict_get_def recommend_def result_prompt_check_def
        sample_items_def)
       (simp add: env_prompt_check_def sample_env_def sample_format_def)
qed

lemma timeout_market_no_bid:
  "analyze_market env_timeout 0 (JObj market_no_bid) = Inr result_no_bid_timeout"
proof -
  have s: "search_news env_timeout i q = map item_source sample_items" for i q
    by (simp add: env_timeout_def sample_env_def search_news_def primary_step_def
        key_configured_def rss_try_def sample_items_def slice_to_def)
  have "analyze_event env_timeout 0 (JObj market_no_bid) srcs
      = Inr (fallback_estimate (Exn RequestException ''Request timed out.''))" for srcs
    by (simp add: analyze_event_def model_reply_def env_timeout_def sample_env_def)
  then show ?thesis
    by (simp add: analyze_market_def s market_no_bid_def get_or_def slice_json_def Let_def
        numeric_of_def fallback_estimate_def dict_get_def recommend_def
        result_no_bid_timeout_def sample_items_def)
       (simp add: env_timeout_def sample_env_def sample_format_def)
qed

theorem missing_yes_bid_defaults_witness:
  "map_of market_no_bid ''yes_bid'' = None
   \<and> analyze_market env_prompt_check 0 (JObj market_no_bid) = Inr result_prompt_check
   \<and> market_price result_prompt_check = 0.5
   \<and> edge result_prompt_check = 0.1
   \<and> prompt_at_50 env_prompt_check market_no_bid
        (search_news env_prompt_check 0 ''Wind in NYC '') = no_bid_prompt
   \<and> contains ''Current Market Price: 50%'' no_bid_prompt
   \<and> messages_create env_prompt_check 0 no_bid_prompt = Inr [TextBlock reply_high]
   \<and> messages_create env_prompt_check 0 '''' = Inl (Exn OtherException ''unexpected prompt'')
   \<and> json_loads env_prompt_check (strip_fences reply_high) = Inr estimate_high
   \<and> dict_get estimate_high ''estimated_probability'' (JFloat 0.5)
       = Inr (estimated_probability result_prompt_check)
   \<and> estimated_probability result_prompt_check = JFloat 0.6
   \<and> analyze_market env_timeout 0 (JObj market_no_bid) = Inr result_no_bid_timeout
   \<and> messages_create env_timeout 0 no_bid_prompt = Inl (Exn RequestException ''Request timed out.'')
   \<and> estimated_probability result_no_bid_timeout = JFloat 0.5
   \<and> confidence result_no_bid_timeout = JStr ''LOW''"
proof -
  let ?S = "map item_source sample_items"
  have h: "map_of market_no_bid ''yes_bid'' = None"
    by (simp add: market_no_bid_def)
  have q: "py_str E (get_or market_no_bid ''title'' (JStr '''')) @ '' ''
             @ py_str E (get_or market_no_bid ''subtitle'' (JStr '''')) = ''Wind in NYC ''" for E
    by (simp add: market_no_bid_def get_or_def py_str_def)
  have s1: "search_news env_prompt_check 0 ''Wind in NYC '' = ?S"
    by (simp add: env_prompt_check_def sample_env_def search_news_def primary_step_def
        key_configured_def rss_try_def sample_items_def slice_to_def)
  have s2: "search_news env_timeout 0 ''Wind in NYC '' = ?S"
    by (simp add: env_timeout_def sample_env_def search_news_def primary_step_def
        key_configured_def rss_try_def sample_items_def slice_to_def)
  have m1: "messages_create env_prompt_check 0 no_bid_prompt = Inr (TextBlock reply_high # [])"
    by (simp add: env_prompt_check_def)
  have m0: "messages_create env_prompt_check 0 '''' = Inl (Exn OtherException ''unexpected prompt'')"
    by (simp add: env_prompt_check_def no_bid_prompt_def)
  have j1: "json_loads env_prompt_check (strip_fences reply_high) = Inr estimate_high"
    by (simp add: env_prompt_check_def sample_env_def strip_fences_def strip_def is_space_def
        sample_loads_def sample_texts replace.simps)
  have m2: "messages_create env_timeout 0 no_bid_prompt
      = Inl (Exn RequestException ''Request timed out.'')"
    by (simp add: env_timeout_def sample_env_def)
  note A = missing_yes_bid_defaults [OF h prompt_check_market_no_bid,
      of ?S "Exn RequestException ''Request timed out.''" reply_high "[]" estimate_high]
  note B = missing_yes_bid_defaults [OF h timeout_market_no_bid,
      of ?S "Exn RequestException ''Request timed out.''" reply_high "[]" estimate_high]
  from A have a1: "market_price result_prompt_check = 0.5" by blast
  from A have a2: "contains ''Current Market Price: 50%'' (prompt_at_50 env_prompt_check market_no_bid ?S)"
    by blast
  from A m1 j1 have a3: "dict_get estimate_high ''estimated_probability'' (JFloat 0.5)
       = Inr (estimated_probability result_prompt_check)"
    unfolding Let_def q s1 no_bid_prompt_built by blast
  from B m2 have b1: "estimated_probability result_no_bid_timeout = JFloat 0.5
       \<and> confidence result_no_bid_timeout = JStr ''LOW''"
    unfolding Let_def q s2 no_bid_prompt_built by blast
  from h prompt_check_market_no_bid timeout_market_no_bid a1 a2 a3 b1 m1 m0 j1 m2 s1
  show ?thesis
    by (simp add: no_bid_prompt_built result_prompt_check_def)
qed

subsection \<open>News lookup\<close>

lemma append_articles_length:
  "length (fst (append_articles as sources)) \<le> length sources + length as"
proof (induction as arbitrary: sources)
  case Nil
  then show ?case by simp
next
  case (Cons a as)
  show ?case
  proof (cases "article_source a")
    case (Inl e)
    then show ?thesis by simp
  next
    case (Inr s)
    with Cons [of "sources @ [s]"] show ?thesis by simp
  qed
qed

lemma slice_json_length: "slice_json 5 j = Inr xs \<Longrightarrow> length xs \<le> 5"
  by (auto simp: slice_json_def slice_to_def split: json.splits)

lemma newsapi_try_length: "length (fst (newsapi_try E i query [])) \<le> 5"
proof -
  have "length (fst (append_articles first5 [])) \<le> 5" if "slice_json 5 j = Inr first5" for j first5
    using append_articles_length [of first5 "[]"] slice_json_length [OF that] by simp
  then show ?thesis
    by (auto simp: newsapi_try_def split: http_result.splits sum.splits)
qed

lemma rss_try_length: "length (fst (rss_try E i query [])) \<le> 5"
  by (auto simp: rss_try_def slice_to_def split: http_result.splits sum.splits)

lemma rss_try_description:
  "s \<in> set (fst (rss_try E i query [])) \<Longrightarrow> src_description s = JStr ''''"
  by (auto simp: rss_try_def item_source_def split: http_result.splits sum.splits if_splits)

lemma primary_step_length: "length (primary_step E i query) \<le> 5"
  by (simp add: primary_step_def newsapi_try_length)

lemma primary_step_rss_update [simp]:
  "primary_step (E\<lparr>rss_get := g\<rparr>) i query = primary_step E i query"
  by (simp add: primary_step_def key_configured_def newsapi_try_def)

text \<open>
  Claim C5. \<^verbatim>\<open>search_news\<close> returns a list for every query and every behaviour of the two
  providers: each provider step runs inside its own \<^verbatim>\<open>try\<close>, whose exception is caught
  and printed, so the value below has no error case. The list has at most 5 sources,
  however many articles or feed items the providers return. When both steps raise (the
  request fails or the body does not parse), the list is empty.
\<close>

theorem search_news_at_most_five:
  "length (search_news E i query) \<le> 5
   \<and> (step_raises (newsapi_get E i query) \<and> step_raises (rss_get E i (rss_url E query))
        \<longrightarrow> search_news E i query = [])"
proof -
  have "length (search_news E i query) \<le> 5"
    by (simp add: search_news_def Let_def primary_step_length rss_try_length)
  moreover have "search_news E i query = []"
    if "step_raises (newsapi_get E i query)" "step_raises (rss_get E i (rss_url E query))"
  proof -
    from that(1) have "primary_step E i query = []"
      by (auto simp: primary_step_def newsapi_try_def step_raises_def
          split: http_result.splits sum.splits)
    moreover from that(2) have "fst (rss_try E i query []) = []"
      by (auto simp: rss_try_def step_raises_def split: http_result.splits sum.splits)
    ultimately show ?thesis by (simp add: search_news_def)
  qed
  ultimately show ?thesis by blast
qed

theorem search_news_at_most_five_witness:
  "step_raises (newsapi_get env_all_down 0 ''Rain in NYC tomorrow'')
   \<and> step_raises (rss_get env_all_down 0 (rss_url env_all_down ''Rain in NYC tomorrow''))
   \<and> snd (newsapi_try env_all_down 0 ''Rain in NYC tomorrow'' [])
       = Some (Exn RequestException ''connection refused'')
   \<and> snd (rss_try env_all_down 0 ''Rain in NYC tomorrow'' [])
       = Some (Exn OtherException ''not well-formed'')
   \<and> search_news env_all_down 0 ''Rain in NYC tomorrow'' = []
   \<and> length (search_news env_all_down 0 ''Rain in NYC tomorrow'') \<le> 5"
  using search_news_at_most_five [of env_all_down 0 "''Rain in NYC tomorrow''"]
  by (simp add: env_all_down_def sample_env_def step_raises_def newsapi_try_def rss_try_def)

text \<open>
  Claim C6. When the primary step yields no source, \<^verbatim>\<open>search_news\<close> returns what the
  fallback step yields: at most 5 sources, each with an empty description, and the first
  5 feed items when the feed answers with status 200. When the primary step yields at
  least one source, the result is that list whatever the feed would answer. The primary
  step yields no source when no key is configured, when the request raises, and when the
  provider returns an empty article list.
\<close>

theorem fallback_when_primary_empty:
  "(primary_step E i query = [] \<longrightarrow>
      search_news E i query = fst (rss_try E i query [])
      \<and> length (search_news E i query) \<le> 5
      \<and> (\<forall>s \<in> set (search_news E i query). src_description s = JStr ''''))
   \<and> (primary_step E i query = [] \<and> rss_get E i (rss_url E query) = Response 200 (Inr items) \<longrightarrow>
      search_news E i query = map item_source (take 5 items))
   \<and> (primary_step E i query \<noteq> [] \<longrightarrow>
      search_news (E\<lparr>rss_get := g\<rparr>) i query = primary_step E i query)
   \<and> (\<not> key_configured E \<longrightarrow> primary_step E i query = [])
   \<and> (newsapi_get E i query = Raised e \<longrightarrow> primary_step E i query = [])
   \<and> (newsapi_get E i query = Response 200 (Inr (JObj [(''articles'', JArr [])])) \<longrightarrow>
      primary_step E i query = [])"
proof -
  have 1: "search_news E i query = fst (rss_try E i query [])" if "primary_step E i query = []"
    using that by (simp add: search_news_def)
  have 2: "search_news E i query = map item_source (take 5 items)"
    if "primary_step E i query = []" "rss_get E i (rss_url E query) = Response 200 (Inr items)"
    using that by (simp add: search_news_def rss_try_def slice_to_def)
  have 3: "search_news (E\<lparr>rss_get := g\<rparr>) i query = primary_step E i query"
    if "primary_step E i query \<noteq> []"
    using that by (simp add: search_news_def)
  have 4: "primary_step E i query = []" if "\<not> key_configured E"
    using that by (simp add: primary_step_def)
  have 5: "primary_step E i query = []" if "newsapi_get E i query = Raised e"
    using that by (simp add: primary_step_def newsapi_try_def)
  have 6: "primary_step E i query = []"
    if "newsapi_get E i query = Response 200 (Inr (JObj [(''articles'', JArr [])]))"
    using that
    by (simp add: primary_step_def newsapi_try_def dict_get_def get_or_def slice_json_def
        slice_to_def)
  from 1 2 3 4 5 6 rss_try_length [of E i query] rss_try_description [of _ E i query]
  show ?thesis by auto
qed

lemma with_news_primary:
  "primary_step env_with_news 0 q =
     [\<lparr>src_title = JStr ''Rain expected'', src_description = JStr ''A front moves in.'',
       src_url = JStr ''https://example.org/a'', src_name = JStr ''Example Wire''\<rparr>]"
  by (simp add: primary_step_def key_configured_def env_with_news_def sample_env_def
      newsapi_try_def dict_get_def get_or_def slice_json_def slice_to_def sample_article_def
      article_source_def)

theorem fallback_when_primary_empty_witness:
  "primary_step sample_env 0 ''Rain in NYC tomorrow'' = []
   \<and> \<not> key_configured sample_env
   \<and> rss_get sample_env 0 (rss_url sample_env ''Rain in NYC tomorrow'')
       = Response 200 (Inr sample_items)
   \<and> search_news sample_env 0 ''Rain in NYC tomorrow'' = map item_source sample_items
   \<and> map src_description (search_news sample_env 0 ''Rain in NYC tomorrow'')
       = [JStr [], JStr [], JStr []]
   \<and> primary_step env_with_news 0 ''Rain in NYC tomorrow'' \<noteq> []
   \<and> search_news (env_with_news\<lparr>rss_get := (\<lambda>i u. Raised (Exn RequestException ''down''))\<rparr>)
         0 ''Rain in NYC tomorrow''
       = primary_step env_with_news 0 ''Rain in NYC tomorrow''"
proof -
  let ?q = "''Rain in NYC tomorrow''"
  let ?g = "\<lambda>(i::nat) (u::string). (Raised (Exn RequestException ''down'') :: rss_item list http_result)"
  have k: "\<not> key_configured sample_env"
    by (simp add: key_configured_def sample_env_def)
  then have p: "primary_step sample_env 0 ?q = []"
    by (simp add: primary_step_def)
  have r: "rss_get sample_env 0 (rss_url sample_env ?q) = Response 200 (Inr sample_items)"
    by (simp add: sample_env_def)
  have t: "take 5 sample_items = sample_items"
    by (simp add: sample_items_def)
  from fallback_when_primary_empty [of sample_env 0 ?q sample_items] p r
  have "search_news sample_env 0 ?q = map item_source (take 5 sample_items)"
    by blast
  then have s: "search_news sample_env 0 ?q = map item_source sample_items"
    by (simp only: t)
  have d: "map src_description (map item_source sample_items) = [JStr [], JStr [], JStr []]"
    by (simp add: sample_items_def item_source_def)
  have w: "primary_step env_with_news 0 ?q \<noteq> []"
    by (simp add: with_news_primary)
  from fallback_when_primary_empty [of env_with_news 0 ?q _ ?g] w
  have f: "search_news (env_with_news\<lparr>rss_get := ?g\<rparr>) 0 ?q = primary_step env_with_news 0 ?q"
    by blast
  from k p r s d w f show ?thesis by simp
qed

subsection \<open>The market source\<close>

text \<open>
  Claim C7. When the request to the market service raises, or its response has a status
  other than 200, \<^verbatim>\<open>get_active_markets\<close> returns the empty list, and \<^verbatim>\<open>run_analysis\<close>
  then returns the empty list of results without an error.
\<close>

theorem markets_unavailable_is_empty:
  "(kalshi_get E = Raised e \<longrightarrow>
      get_active_markets E = JArr [] \<and> run_analysis E max_events = Inr [])
   \<and> (kalshi_get E = Response status body \<and> status \<noteq> 200 \<longrightarrow>
      get_active_markets E = JArr [] \<and> run_analysis E max_events = Inr [])"
  by (simp add: get_active_markets_def run_analysis_def slice_json_def slice_to_def)

theorem markets_unavailable_is_empty_witness:
  "kalshi_get env_markets_down = Raised (Exn RequestException ''connection refused'')
   \<and> get_active_markets env_markets_down = JArr []
   \<and> run_analysis env_markets_down 10 = Inr []
   \<and> kalshi_get env_markets_503 = Response 503 (Inl (Exn JSONDecodeError ''Expecting value''))
   \<and> (503 :: nat) \<noteq> 200
   \<and> get_active_markets env_markets_503 = JArr []
   \<and> run_analysis env_markets_503 10 = Inr []"
  using markets_unavailable_is_empty [of env_markets_down
      "Exn RequestException ''connection refused''" 10 503 "Inl (Exn JSONDecodeError ''Expecting value'')"]
    markets_unavailable_is_empty [of env_markets_503
      "Exn RequestException ''connection refused''" 10 503 "Inl (Exn JSONDecodeError ''Expecting value'')"]
  by (simp add: env_markets_down_def env_markets_503_def sample_env_def)

subsection \<open>String replacement and stripping\<close>

declare replace.simps [simp del]

lemma replace_Nil: "old \<noteq> [] \<Longrightarrow> replace old new [] = []"
  by (subst replace.simps) simp

lemma replace_match:
  "old \<noteq> [] \<Longrightarrow> s \<noteq> [] \<Longrightarrow> take (length old) s = old \<Longrightarrow>
     replace old new s = new @ replace old new (drop (length old) s)"
proof (cases s)
  case Nil
  assume "s \<noteq> []"
  with Nil show ?thesis by simp
next
  case (Cons c cs)
  assume "old \<noteq> []" and "take (length old) s = old"
  with Cons show ?thesis by (subst replace.simps) simp
qed

lemma replace_no_match:
  "old \<noteq> [] \<Longrightarrow> take (length old) (c # cs) \<noteq> old \<Longrightarrow>
     replace old new (c # cs) = c # replace old new cs"
  by (subst replace.simps) simp

lemma take_eq_hd: "old \<noteq> [] \<Longrightarrow> take (length old) (c # cs) = old \<Longrightarrow> hd old = c"
  by (cases old) auto

lemma replace_skip:
  "old \<noteq> [] \<Longrightarrow> hd old \<notin> set w \<Longrightarrow> replace old new (w @ s) = w @ replace old new s"
proof (induction w)
  case Nil
  then show ?case by simp
next
  case (Cons c w)
  then have "take (length old) (c # (w @ s)) \<noteq> old"
    using take_eq_hd [of old c "w @ s"] by auto
  with Cons show ?case
    by (simp add: replace_no_match)
qed

lemma match_inside:
  assumes "J \<noteq> []" and "last J \<notin> set old" and "take (length old) (J @ R) = old"
  shows "length old < length J"
proof (rule ccontr)
  assume "\<not> length old < length J"
  then have le: "length J \<le> length old" by simp
  have "take (length J) (take (length old) (J @ R)) = J"
    using le by (simp add: min_def)
  with assms(3) have "take (length J) old = J" by simp
  then have "set J \<subseteq> set old"
    by (metis set_take_subset)
  with assms(1,2) show False
    using last_in_set by blast
qed

lemma replace_append:
  "old \<noteq> [] \<Longrightarrow> J \<noteq> [] \<Longrightarrow> last J \<notin> set old \<Longrightarrow>
     replace old new (J @ R) = replace old new J @ replace old new R"
proof (induction J rule: length_induct)
  case (1 J)
  note IH = 1(1) and old = 1(2) and Jne = 1(3) and lastJ = 1(4)
  from Jne obtain c cs where J: "J = c # cs" by (cases J) auto
  show ?case
  proof (cases "take (length old) (J @ R) = old")
    case True
    with Jne lastJ have lt: "length old < length J" by (rule match_inside)
    let ?D = "drop (length old) J"
    from old have pos: "0 < length old" by simp
    from lt have D1: "?D \<noteq> []" by simp
    from lt have D2: "last ?D = last J" by simp
    have "length ?D = length J - length old" by simp
    with lt pos have D3: "length ?D < length J" by linarith
    from True lt have tJ: "take (length old) J = old" by simp
    from lt have dJ: "drop (length old) (J @ R) = ?D @ R" by simp
    have "replace old new (J @ R) = new @ replace old new (?D @ R)"
      using replace_match [of old "J @ R" new] True old Jne dJ by simp
    also have "replace old new (?D @ R) = replace old new ?D @ replace old new R"
      using IH D1 D2 D3 old lastJ by simp
    also have "new @ replace old new ?D @ replace old new R = replace old new J @ replace old new R"
      using replace_match [of old J new] tJ old Jne by simp
    finally show ?thesis .
  next
    case False
    have nJ: "take (length old) J \<noteq> old"
    proof
      assume eq: "take (length old) J = old"
      then have "length (take (length old) J) = length old" by simp
      then have "length old \<le> length J" by simp
      then have "take (length old) (J @ R) = take (length old) J" by simp
      with eq False show False by simp
    qed
    from False J have 2: "replace old new (J @ R) = c # replace old new (cs @ R)"
      using replace_no_match [of old c "cs @ R" new] old by simp
    from nJ J have 3: "replace old new J = c # replace old new cs"
      using replace_no_match [of old c cs new] old by simp
    show ?thesis
    proof (cases "cs = []")
      case True
      with 2 3 old show ?thesis by (simp add: replace_Nil)
    next
      case False
      with IH J old lastJ have "replace old new (cs @ R) = replace old new cs @ replace old new R"
        by simp
      with 2 3 show ?thesis by simp
    qed
  qed
qed

lemma replace_keeps_last:
  "old \<noteq> [] \<Longrightarrow> J \<noteq> [] \<Longrightarrow> last J \<notin> set old \<Longrightarrow>
     replace old new J \<noteq> [] \<and> last (replace old new J) = last J"
proof (induction J rule: length_induct)
  case (1 J)
  note IH = 1(1) and old = 1(2) and Jne = 1(3) and lastJ = 1(4)
  from Jne obtain c cs where J: "J = c # cs" by (cases J) auto
  show ?case
  proof (cases "take (length old) J = old")
    case True
    then have "take (length old) (J @ []) = old" by simp
    with Jne lastJ have lt: "length old < length J" by (rule match_inside)
    let ?D = "drop (length old) J"
    from old have pos: "0 < length old" by simp
    from lt have D1: "?D \<noteq> []" by simp
    from lt have D2: "last ?D = last J" by simp
    have "length ?D = length J - length old" by simp
    with lt pos have D3: "length ?D < length J" by linarith
    have eq: "replace old new J = new @ replace old new ?D"
      using replace_match [of old J new] True old Jne by simp
    from IH D1 D2 D3 old lastJ
    have "replace old new ?D \<noteq> [] \<and> last (replace old new ?D) = last J" by simp
    with eq show ?thesis by simp
  next
    case False
    with J have 3: "replace old new J = c # replace old new cs"
      using replace_no_match [of old c cs new] old by simp
    show ?thesis
    proof (cases "cs = []")
      case True
      with 3 J old show ?thesis by (simp add: replace_Nil)
    next
      case False
      with IH J old lastJ
      have "replace old new cs \<noteq> [] \<and> last (replace old new cs) = last J" by simp
      with 3 show ?thesis by simp
    qed
  qed
qed

lemma dropWhile_all: "\<forall>c\<in>set w. P c \<Longrightarrow> dropWhile P w = []"
  by simp

lemma strip_leading: "\<forall>c\<in>set w. is_space c \<Longrightarrow> strip (w @ s) = strip s"
  by (simp add: strip_def dropWhile_append)

lemma strip_trailing: "\<forall>c\<in>set w. is_space c \<Longrightarrow> strip (s @ w) = strip s"
proof (cases "\<forall>c\<in>set s. is_space c")
  case True
  assume "\<forall>c\<in>set w. is_space c"
  with True show ?thesis by (simp add: strip_def dropWhile_append dropWhile_all)
next
  case False
  assume w: "\<forall>c\<in>set w. is_space c"
  from False have "dropWhile is_space (s @ w) = dropWhile is_space s @ w"
    by (auto simp: dropWhile_append)
  moreover from w have "dropWhile is_space (rev w @ rev (dropWhile is_space s))
      = dropWhile is_space (rev (dropWhile is_space s))"
    by (simp add: dropWhile_append)
  ultimately show ?thesis by (simp add: strip_def)
qed

lemma strip_id: "s \<noteq> [] \<Longrightarrow> \<not> is_space (hd s) \<Longrightarrow> \<not> is_space (last s) \<Longrightarrow> strip s = s"
proof -
  assume s: "s \<noteq> []" and h: "\<not> is_space (hd s)" and l: "\<not> is_space (last s)"
  from s h have 1: "dropWhile is_space s = s" by (cases s) auto
  from s l have 2: "dropWhile is_space (rev s) = rev s" by (cases "rev s") (auto simp: hd_rev)
  from 1 2 show ?thesis by (simp add: strip_def)
qed

lemma not_space_fence: "\<not> is_space (CHR 0x60)" "\<not> is_space CHR ''{''" "\<not> is_space CHR ''}''"
  by (simp_all add: is_space_def)

lemma space_not_fence: "is_space c \<Longrightarrow> c \<noteq> CHR 0x60 \<and> c \<noteq> CHR ''j''"
  by (auto simp: is_space_def)

lemma replace_json_after_bare:
  assumes "t \<noteq> CHR 0x60" and "t \<noteq> CHR ''j''"
  shows "replace ''```json\<newline>'' new (''```'' @ t # T) = ''```'' @ replace ''```json\<newline>'' new (t # T)"
  using assms by (simp add: replace_no_match)

lemma replace_fence_tail:
  "replace ''```json\<newline>'' [] ''```'' = ''```''" "replace ''```'' [] ''```'' = []"
  by (simp_all add: replace.simps)

lemma strip_fences_fenced:
  assumes J: "J \<noteq> []" "hd J = CHR ''{''" "last J = CHR ''}''"
    and opener: "opener = ''```json\<newline>'' \<or> opener = ''```''"
    and sp: "\<forall>c\<in>set (w1 @ w2 @ w3 @ w4). is_space c"
  shows "strip_fences (w1 @ opener @ w2 @ J @ w3 @ ''```'' @ w4) = strip_fences J"
proof -
  let ?p1 = "''```json\<newline>''" and ?p2 = "''```''"
  define T where "T = w2 @ J @ w3 @ ?p2"
  define J1 where "J1 = replace ?p1 [] J"
  define J2 where "J2 = replace ?p2 [] J1"
  from sp have sp1: "\<forall>c\<in>set w1. is_space c" and sp2: "\<forall>c\<in>set w2. is_space c"
    and sp3: "\<forall>c\<in>set w3. is_space c" and sp4: "\<forall>c\<in>set w4. is_space c"
    by auto
  from sp2 have t2: "CHR 0x60 \<notin> set w2" using not_space_fence(1) by blast
  from sp3 have t3: "CHR 0x60 \<notin> set w3" using not_space_fence(1) by blast
  have J1: "J1 \<noteq> [] \<and> last J1 = CHR ''}''"
    unfolding J1_def using replace_keeps_last [of ?p1 J "[]"] J by simp
  have T1: "replace ?p1 [] T = w2 @ J1 @ w3 @ ?p2"
  proof -
    have "replace ?p1 [] T = w2 @ replace ?p1 [] (J @ (w3 @ ?p2))"
      unfolding T_def using replace_skip [of ?p1 w2 "[]"] t2 by simp
    also have "replace ?p1 [] (J @ (w3 @ ?p2)) = J1 @ replace ?p1 [] (w3 @ ?p2)"
      unfolding J1_def using replace_append [of ?p1 J "[]"] J by simp
    also have "replace ?p1 [] (w3 @ ?p2) = w3 @ ?p2"
      using replace_skip [of ?p1 w3 "[]" ?p2] t3 replace_fence_tail(1) by simp
    finally show ?thesis by simp
  qed
  have T2: "replace ?p2 [] (w2 @ J1 @ w3 @ ?p2) = w2 @ J2 @ w3"
  proof -
    have "replace ?p2 [] (w2 @ J1 @ w3 @ ?p2) = w2 @ replace ?p2 [] (J1 @ (w3 @ ?p2))"
      using replace_skip [of ?p2 w2 "[]"] t2 by simp
    also have "replace ?p2 [] (J1 @ (w3 @ ?p2)) = J2 @ replace ?p2 [] (w3 @ ?p2)"
      unfolding J2_def using replace_append [of ?p2 J1 "[]"] J1 by simp
    also have "replace ?p2 [] (w3 @ ?p2) = w3"
      using replace_skip [of ?p2 w3 "[]" ?p2] t3 replace_fence_tail(2) by simp
    finally show ?thesis by simp
  qed
  have body: "replace ?p2 [] (replace ?p1 [] (opener @ T)) = w2 @ J2 @ w3"
  proof (cases "opener = ?p1")
    case True
    have "replace ?p1 [] (?p1 @ T) = replace ?p1 [] T"
      using replace_match [of ?p1 "?p1 @ T" "[]"] by simp
    with True T1 T2 show ?thesis by simp
  next
    case False
    with opener have op: "opener = ?p2" by simp
    have "T \<noteq> []" unfolding T_def using J by simp
    then obtain t T' where T: "T = t # T'" by (cases T) auto
    have "t \<noteq> CHR 0x60 \<and> t \<noteq> CHR ''j''"
    proof (cases w2)
      case Nil
      with T J show ?thesis unfolding T_def by (cases J) auto
    next
      case (Cons a w)
      with T have "t = a" unfolding T_def by simp
      with Cons sp2 show ?thesis using space_not_fence by simp
    qed
    then have "replace ?p1 [] (?p2 @ T) = ?p2 @ replace ?p1 [] T"
      unfolding T using replace_json_after_bare by blast
    then have "replace ?p1 [] (?p2 @ T) = ?p2 @ (w2 @ J1 @ w3 @ ?p2)"
      using T1 by simp
    moreover have "replace ?p2 [] (?p2 @ (w2 @ J1 @ w3 @ ?p2)) = replace ?p2 [] (w2 @ J1 @ w3 @ ?p2)"
      using replace_match [of ?p2 "?p2 @ (w2 @ J1 @ w3 @ ?p2)" "[]"] by simp
    ultimately show ?thesis using op T2 by simp
  qed
  have core: "strip (w1 @ (opener @ T) @ w4) = opener @ T"
  proof -
    have "opener @ T \<noteq> []" "hd (opener @ T) = CHR 0x60" "last (opener @ T) = CHR 0x60"
      using opener unfolding T_def by auto
    then have id: "strip (opener @ T) = opener @ T"
      using strip_id not_space_fence(1) by simp
    have "strip (w1 @ (opener @ T) @ w4) = strip ((opener @ T) @ w4)"
      by (rule strip_leading [OF sp1])
    also have "\<dots> = strip (opener @ T)"
      by (rule strip_trailing [OF sp4])
    finally show ?thesis using id by simp
  qed
  have lhs: "strip_fences (w1 @ opener @ w2 @ J @ w3 @ ?p2 @ w4) = strip J2"
  proof -
    have eq: "w1 @ opener @ w2 @ J @ w3 @ ?p2 @ w4 = w1 @ (opener @ T) @ w4"
      unfolding T_def by simp
    have "strip_fences (w1 @ (opener @ T) @ w4) = strip (w2 @ J2 @ w3)"
      by (simp only: strip_fences_def core body)
    then have "strip_fences (w1 @ opener @ w2 @ J @ w3 @ ?p2 @ w4) = strip (w2 @ J2 @ w3)"
      by (simp only: eq)
    also have "\<dots> = strip (J2 @ w3)" by (rule strip_leading [OF sp2])
    also have "\<dots> = strip J2" by (rule strip_trailing [OF sp3])
    finally show ?thesis .
  qed
  have "strip J = J" using strip_id J not_space_fence by simp
  then have "strip_fences J = strip J2"
    unfolding strip_fences_def J1_def J2_def by simp
  with lhs show ?thesis by simp
qed

lemma replace_absent:
  "old \<noteq> [] \<Longrightarrow> \<not> contains old s \<Longrightarrow> replace old new s = s"
proof (induction s)
  case Nil
  then show ?case by (simp add: replace_Nil)
next
  case (Cons c cs)
  then show ?case by (simp add: replace_no_match)
qed

lemma take_prefix:
  assumes "take n s = p @ q"
  shows "take (length p) s = p"
proof -
  have "length (take n s) = length p + length q"
    using assms by simp
  then have "length p \<le> n" by simp
  then have "take (length p) (take n s) = take (length p) s"
    by (simp add: min_def)
  with assms show ?thesis by simp
qed

lemma contains_json_fence:
  "contains ''```json\<newline>'' s \<Longrightarrow> contains ''```'' s"
proof (induction s)
  case Nil
  then show ?case by simp
next
  case (Cons c cs)
  show ?case
  proof (cases "take (length ''```json\<newline>'') (c # cs) = ''```json\<newline>''")
    case True
    then have "take (length ''```json\<newline>'') (c # cs) = ''```'' @ ''json\<newline>''"
      by simp
    then have "take (length ''```'') (c # cs) = ''```''"
      by (rule take_prefix)
    then show ?thesis
      by (simp only: contains.simps) simp
  next
    case False
    with Cons.prems have "contains ''```json\<newline>'' cs"
      by (simp only: contains.simps) simp
    then have "contains ''```'' cs"
      by (rule Cons.IH)
    then show ?thesis
      by (simp only: contains.simps) simp
  qed
qed

lemma strip_fences_plain:
  assumes "J \<noteq> []" and "hd J = CHR ''{''" and "last J = CHR ''}''"
    and "\<forall>c\<in>set (a @ b). is_space c"
  shows "strip_fences (a @ J @ b) = strip_fences J"
    and "\<not> contains ''```'' J \<Longrightarrow> strip_fences J = J"
proof -
  from assms(4) have a: "\<forall>c\<in>set a. is_space c" and b: "\<forall>c\<in>set b. is_space c"
    by auto
  have id: "strip J = J"
    using strip_id assms(1-3) not_space_fence by simp
  have "strip (a @ J @ b) = strip (J @ b)"
    by (rule strip_leading [OF a])
  also have "\<dots> = strip J"
    by (rule strip_trailing [OF b])
  finally have "strip (a @ J @ b) = strip J" .
  then show "strip_fences (a @ J @ b) = strip_fences J"
    by (simp add: strip_fences_def)
  assume no: "\<not> contains ''```'' J"
  then have "\<not> contains ''```json\<newline>'' J"
    using contains_json_fence by blast
  then have "replace ''```json\<newline>'' [] J = J"
    by (simp add: replace_absent)
  moreover from no have "replace ''```'' [] J = J"
    by (simp add: replace_absent)
  ultimately show "strip_fences J = J"
    using id by (simp add: strip_fences_def)
qed

subsection \<open>The estimator\<close>

lemma reply_high_clean: "strip_fences reply_high = reply_high"
  by (simp add: strip_fences_def strip_def is_space_def reply_high_def replace.simps)

lemma reply_high_no_fence: "\<not> contains ''```'' reply_high"
  by (simp add: reply_high_def)

lemma reply_high_loads: "sample_loads reply_high = Inr estimate_high"
  by (simp add: sample_loads_def)

lemma env_reply_simps [simp]:
  "messages_create (env_reply text) i p = Inr [TextBlock text]"
  "json_loads (env_reply text) = sample_loads"
  by (simp_all add: env_reply_def sample_env_def)

text \<open>
  Claim C9, as stated, fails: a fence whose opening marker is not \<^verbatim>\<open>```json\<close> followed at
  once by a line feed is not removed whole. For the reply \<^verbatim>\<open>```json\<close>, carriage return,
  line feed, the HIGH estimate, carriage return, line feed, \<^verbatim>\<open>```\<close>, and for the reply with
  the opening marker \<^verbatim>\<open>```JSON\<close>, the text handed to \<^verbatim>\<open>json.loads\<close> still begins with the
  language name, does not parse, and the estimator returns the fallback Estimate; for the
  same JSON without markers it returns the HIGH estimate.
\<close>

theorem fence_marker_counterexample:
  "fenced_crlf = ''```json'' @ [CHR 0x0D, CHR 0x0A] @ reply_high @ [CHR 0x0D, CHR 0x0A] @ ''```''
   \<and> strip_fences fenced_crlf = ''json'' @ [CHR 0x0D, CHR 0x0A] @ reply_high
   \<and> analyze_event (env_reply fenced_crlf) 0 market_a []
       = Inr (JObj [(''estimated_probability'', JFloat 0.5), (''confidence'', JStr ''LOW''),
                    (''reasoning'', JStr ''Error: Expecting value: line 1 column 1 (char 0)'')])
   \<and> fenced_upper = ''```JSON\<newline>'' @ reply_high @ ''\<newline>```''
   \<and> strip_fences fenced_upper = ''JSON\<newline>'' @ reply_high
   \<and> analyze_event (env_reply fenced_upper) 0 market_a []
       = Inr (JObj [(''estimated_probability'', JFloat 0.5), (''confidence'', JStr ''LOW''),
                    (''reasoning'', JStr ''Error: Expecting value: line 1 column 1 (char 0)'')])
   \<and> analyze_event (env_reply reply_high) 0 market_a []
       = Inr (JObj [(''estimated_probability'', JFloat 0.6), (''confidence'', JStr ''HIGH''),
                    (''reasoning'', JStr ''forecast'')])
   \<and> analyze_event (env_reply fenced_crlf) 0 market_a []
       \<noteq> analyze_event (env_reply reply_high) 0 market_a []
   \<and> analyze_event (env_reply fenced_upper) 0 market_a []
       \<noteq> analyze_event (env_reply reply_high) 0 market_a []"
proof -
  have c: "strip_fences fenced_crlf = ''json'' @ [CHR 0x0D, CHR 0x0A] @ reply_high"
    by (simp add: fenced_crlf_def strip_fences_def strip_def is_space_def reply_high_def
        replace.simps)
  have u: "strip_fences fenced_upper = ''JSON\<newline>'' @ reply_high"
    by (simp add: fenced_upper_def strip_fences_def strip_def is_space_def reply_high_def
        replace.simps)
  have lc: "sample_loads (''json'' @ [CHR 0x0D, CHR 0x0A] @ reply_high)
      = Inl (Exn JSONDecodeError ''Expecting value: line 1 column 1 (char 0)'')"
    by (simp add: sample_loads_def sample_texts)
  have lu: "sample_loads (''JSON\<newline>'' @ reply_high)
      = Inl (Exn JSONDecodeError ''Expecting value: line 1 column 1 (char 0)'')"
    by (simp add: sample_loads_def sample_texts)
  have 1: "analyze_event (env_reply fenced_crlf) 0 market_a []
       = Inr (JObj [(''estimated_probability'', JFloat 0.5), (''confidence'', JStr ''LOW''),
                    (''reasoning'', JStr ''Error: Expecting value: line 1 column 1 (char 0)'')])"
    using c lc
    by (simp add: analyze_event_def market_a_def model_reply_def first_text_def
        fallback_estimate_def)
  have 2: "analyze_event (env_reply fenced_upper) 0 market_a []
       = Inr (JObj [(''estimated_probability'', JFloat 0.5), (''confidence'', JStr ''LOW''),
                    (''reasoning'', JStr ''Error: Expecting value: line 1 column 1 (char 0)'')])"
    using u lu
    by (simp add: analyze_event_def market_a_def model_reply_def first_text_def
        fallback_estimate_def)
  have 3: "analyze_event (env_reply reply_high) 0 market_a []
       = Inr (JObj [(''estimated_probability'', JFloat 0.6), (''confidence'', JStr ''HIGH''),
                    (''reasoning'', JStr ''forecast'')])"
    by (simp add: analyze_event_def market_a_def model_reply_def first_text_def
        reply_high_clean reply_high_loads estimate_high_def)
  from c u 1 2 3 show ?thesis
    by (simp add: fenced_crlf_def fenced_upper_def)
qed

text \<open>
  Claim C9, amended. Let \<open>J\<close> be a reply text that begins with \<^verbatim>\<open>{\<close> and ends with \<^verbatim>\<open>}\<close>, as the
  text of every JSON object does once the whitespace around it is dropped. Let the model's
  reply be \<open>J\<close> surrounded by the fence markers that the code removes: an opening
  \<^verbatim>\<open>```json\<close> followed at once by a line feed, or a bare \<^verbatim>\<open>```\<close>, and a closing \<^verbatim>\<open>```\<close>, with
  any whitespace before the opening marker, between the markers and \<open>J\<close>, and after the
  closing marker. Then the text handed to \<^verbatim>\<open>json.loads\<close> is the same as for the reply that
  is \<open>J\<close> without the markers, and the estimator returns the same Estimate for both: what
  \<^verbatim>\<open>json.loads\<close> makes of the cleaned \<open>J\<close>, or the fallback when that does not parse. When
  \<open>J\<close> has no \<^verbatim>\<open>```\<close> inside, the cleaned \<open>J\<close> is \<open>J\<close> itself.
\<close>

theorem fenced_reply_parsed_identically:
  assumes "J \<noteq> []" and "hd J = CHR ''{''" and "last J = CHR ''}''"
    and "opener = ''```json\<newline>'' \<or> opener = ''```''"
    and "\<forall>c\<in>set (w1 @ w2 @ w3 @ w4 @ a @ b). is_space c"
  shows "analyze_event
           (E\<lparr>messages_create :=
                (\<lambda>i p. Inr [TextBlock (w1 @ opener @ w2 @ J @ w3 @ ''```'' @ w4)])\<rparr>)
           i event sources
         = analyze_event (E\<lparr>messages_create := (\<lambda>i p. Inr [TextBlock (a @ J @ b)])\<rparr>)
             i event sources
       \<and> strip_fences (w1 @ opener @ w2 @ J @ w3 @ ''```'' @ w4) = strip_fences (a @ J @ b)
       \<and> (\<not> contains ''```'' J \<longrightarrow>
            strip_fences (w1 @ opener @ w2 @ J @ w3 @ ''```'' @ w4) = J)
       \<and> (messages_create E i (build_prompt E m sources)
              = Inr (TextBlock (w1 @ opener @ w2 @ J @ w3 @ ''```'' @ w4) # blocks) \<longrightarrow>
            analyze_event E i (JObj m) sources
              = Inr (case json_loads E (strip_fences J) of
                       Inl e \<Rightarrow> fallback_estimate e | Inr j \<Rightarrow> j))
       \<and> (messages_create E i (build_prompt E m sources)
              = Inr (TextBlock (a @ J @ b) # blocks) \<longrightarrow>
            analyze_event E i (JObj m) sources
              = Inr (case json_loads E (strip_fences J) of
                       Inl e \<Rightarrow> fallback_estimate e | Inr j \<Rightarrow> j))
       \<and> (\<not> contains ''```'' J \<longrightarrow> strip_fences J = J)"
proof -
  from assms(5) have w: "\<forall>c\<in>set (w1 @ w2 @ w3 @ w4). is_space c"
    and ab: "\<forall>c\<in>set (a @ b). is_space c"
    by auto
  have 1: "strip_fences (w1 @ opener @ w2 @ J @ w3 @ ''```'' @ w4) = strip_fences J"
    using assms(1-4) w by (rule strip_fences_fenced)
  have 2: "strip_fences (a @ J @ b) = strip_fences J"
    using assms(1-3) ab by (rule strip_fences_plain(1))
  have 3: "strip_fences J = J" if "\<not> contains ''```'' J"
    using assms(1-3) ab that by (rule strip_fences_plain(2))
  from 1 2 have eq: "strip_fences (w1 @ opener @ w2 @ J @ w3 @ ''```'' @ w4)
      = strip_fences (a @ J @ b)"
    by simp
  then have 4: "analyze_event
           (E\<lparr>messages_create :=
                (\<lambda>i p. Inr [TextBlock (w1 @ opener @ w2 @ J @ w3 @ ''```'' @ w4)])\<rparr>)
           i event sources
         = analyze_event (E\<lparr>messages_create := (\<lambda>i p. Inr [TextBlock (a @ J @ b)])\<rparr>)
             i event sources"
    by (cases event) (simp_all add: analyze_event_def model_reply_def first_text_def)
  have 5: "analyze_event E i (JObj m) sources
        = Inr (case json_loads E (strip_fences J) of
                 Inl e \<Rightarrow> fallback_estimate e | Inr j \<Rightarrow> j)"
    if "messages_create E i (build_prompt E m sources) = Inr (TextBlock t # blocks)"
      and "strip_fences t = strip_fences J" for t
    using that by (simp add: analyze_event_def model_reply_def first_text_def)
  from 1 2 3 eq 4 5 show ?thesis by simp
qed

theorem fenced_reply_parsed_identically_witness:
  "reply_high \<noteq> [] \<and> hd reply_high = CHR ''{'' \<and> last reply_high = CHR ''}''
   \<and> is_space CHR ''\<newline>''
   \<and> \<not> contains ''```'' reply_high
   \<and> strip_fences (''```json\<newline>'' @ reply_high @ ''\<newline>```'') = reply_high
   \<and> strip_fences reply_high = reply_high
   \<and> analyze_event
        (sample_env\<lparr>messages_create :=
           (\<lambda>i p. Inr [TextBlock (''```json\<newline>'' @ reply_high @ ''\<newline>```'')])\<rparr>)
        0 market_a []
      = analyze_event (sample_env\<lparr>messages_create := (\<lambda>i p. Inr [TextBlock reply_high])\<rparr>)
          0 market_a []
   \<and> messages_create (env_reply (''```json\<newline>'' @ reply_high @ ''\<newline>```'')) 0 ''prompt''
       = Inr [TextBlock (''```json\<newline>'' @ reply_high @ ''\<newline>```'')]
   \<and> json_loads (env_reply (''```json\<newline>'' @ reply_high @ ''\<newline>```''))
         (strip_fences reply_high) = Inr estimate_high
   \<and> analyze_event (env_reply (''```json\<newline>'' @ reply_high @ ''\<newline>```'')) 0 market_a []
       = Inr estimate_high
   \<and> messages_create (env_reply reply_high) 0 ''prompt'' = Inr [TextBlock reply_high]
   \<and> analyze_event (env_reply reply_high) 0 market_a [] = Inr estimate_high"
proof -
  let ?F = "''```json\<newline>'' @ reply_high @ ''\<newline>```''"
  obtain ma where ma: "market_a = JObj ma"
    by (simp add: market_a_def)
  have h: "reply_high \<noteq> []" "hd reply_high = CHR ''{''" "last reply_high = CHR ''}''"
    by (simp_all add: reply_high_def)
  have o: "''```json\<newline>'' = ''```json\<newline>'' \<or> ''```json\<newline>'' = ''```''"
    by simp
  have n: "is_space CHR ''\<newline>''"
    by (simp add: is_space_def)
  then have w: "\<forall>c\<in>set ([] @ [] @ ''\<newline>'' @ [] @ [] @ []). is_space c"
    by simp
  have l: "json_loads (env_reply t) (strip_fences reply_high) = Inr estimate_high" for t
    by (simp add: reply_high_clean reply_high_loads)
  note A = fenced_reply_parsed_identically [OF h o w, of sample_env 0 market_a "[]"]
  note B = fenced_reply_parsed_identically [OF h o w, of "env_reply ?F" 0 market_a "[]" ma "[]"]
  note C = fenced_reply_parsed_identically [OF h o w, of "env_reply reply_high" 0 market_a "[]" ma "[]"]
  from A have a1: "analyze_event
        (sample_env\<lparr>messages_create := (\<lambda>i p. Inr [TextBlock ?F])\<rparr>) 0 market_a []
      = analyze_event (sample_env\<lparr>messages_create := (\<lambda>i p. Inr [TextBlock reply_high])\<rparr>)
          0 market_a []"
    by simp
  from A reply_high_no_fence have a2: "strip_fences ?F = reply_high"
    by simp
  from B have b: "analyze_event (env_reply ?F) 0 market_a [] = Inr estimate_high"
    unfolding ma by (simp add: reply_high_clean reply_high_loads)
  from C have c: "analyze_event (env_reply reply_high) 0 market_a [] = Inr estimate_high"
    unfolding ma by (simp add: reply_high_clean reply_high_loads)
  from h n reply_high_no_fence reply_high_clean a1 a2 b c l show ?thesis
    by simp
qed

text \<open>
  Claim C3, amended. For every market (a dict) and source list the estimator returns an
  Estimate and raises nothing. When the request to the model raises, or the cleaned reply
  does not parse as JSON, the Estimate is exactly the fallback: probability 0.5,
  confidence LOW and a reasoning that starts with \<^verbatim>\<open>Error:\<close>. A reply that parses is
  returned as parsed, also when it lacks one of the three keys.
\<close>

theorem estimator_fallback:
  "(\<exists>j. analyze_event E i (JObj m) sources = Inr j)
   \<and> (messages_create E i (build_prompt E m sources) = Inl e \<longrightarrow>
        analyze_event E i (JObj m) sources = Inr (fallback_estimate e))
   \<and> (messages_create E i (build_prompt E m sources) = Inr (TextBlock text # blocks)
        \<and> json_loads E (strip_fences text) = Inl e \<longrightarrow>
        analyze_event E i (JObj m) sources = Inr (fallback_estimate e))
   \<and> (messages_create E i (build_prompt E m sources) = Inr (TextBlock text # blocks)
        \<and> json_loads E (strip_fences text) = Inr j \<longrightarrow>
        analyze_event E i (JObj m) sources = Inr j)
   \<and> is_fallback_estimate (fallback_estimate e)"
proof -
  have "is_fallback_estimate (fallback_estimate e)"
    by (cases e) (simp add: fallback_estimate_def is_fallback_estimate_def)
  then show ?thesis
    by (simp add: analyze_event_def model_reply_def first_text_def)
qed

theorem estimator_fallback_witness:
  "messages_create env_timeout 0 ''prompt'' = Inl (Exn RequestException ''Request timed out.'')
   \<and> analyze_event env_timeout 0 market_a []
       = Inr (JObj [(''estimated_probability'', JFloat 0.5), (''confidence'', JStr ''LOW''),
                    (''reasoning'', JStr ''Error: Request timed out.'')])
   \<and> messages_create env_prose 0 ''prompt'' = Inr [TextBlock reply_prose]
   \<and> json_loads env_prose (strip_fences reply_prose)
       = Inl (Exn JSONDecodeError ''Expecting value: line 1 column 1 (char 0)'')
   \<and> analyze_event env_prose 0 market_a []
       = Inr (JObj [(''estimated_probability'', JFloat 0.5), (''confidence'', JStr ''LOW''),
                    (''reasoning'', JStr ''Error: Expecting value: line 1 column 1 (char 0)'')])
   \<and> messages_create env_no_reasoning 0 ''prompt'' = Inr [TextBlock reply_no_reasoning]
   \<and> json_loads env_no_reasoning (strip_fences reply_no_reasoning) = Inr estimate_no_reasoning
   \<and> analyze_event env_no_reasoning 0 market_a [] = Inr estimate_no_reasoning"
proof -
  obtain ma where ma: "market_a = JObj ma"
    by (simp add: market_a_def)
  have t: "messages_create env_timeout 0 q = Inl (Exn RequestException ''Request timed out.'')" for q
    by (simp add: env_timeout_def sample_env_def)
  have p1: "messages_create env_prose 0 q = Inr (TextBlock reply_prose # [])" for q
    by (simp add: env_prose_def sample_env_def)
  have p2: "json_loads env_prose (strip_fences reply_prose)
       = Inl (Exn JSONDecodeError ''Expecting value: line 1 column 1 (char 0)'')"
    by (simp add: env_prose_def sample_env_def sample_loads_def strip_fences_def strip_def
        is_space_def sample_texts replace.simps)
  have n1: "messages_create env_no_reasoning 0 q = Inr (TextBlock reply_no_reasoning # [])" for q
    by (simp add: env_no_reasoning_def sample_env_def)
  have n2: "json_loads env_no_reasoning (strip_fences reply_no_reasoning) = Inr estimate_no_reasoning"
    by (simp add: env_no_reasoning_def sample_env_def sample_loads_def strip_fences_def strip_def
        is_space_def sample_texts replace.simps)
  from estimator_fallback [of env_timeout 0 ma "[]" "Exn RequestException ''Request timed out.''"] t
  have a: "analyze_event env_timeout 0 market_a []
       = Inr (fallback_estimate (Exn RequestException ''Request timed out.''))"
    unfolding ma by blast
  from estimator_fallback [of env_prose 0 ma "[]" _ reply_prose "[]"] p1 p2
  have b: "analyze_event env_prose 0 market_a []
       = Inr (fallback_estimate (Exn JSONDecodeError ''Expecting value: line 1 column 1 (char 0)''))"
    unfolding ma by blast
  from estimator_fallback [of env_no_reasoning 0 ma "[]" _ reply_no_reasoning "[]" estimate_no_reasoning] n1 n2
  have c: "analyze_event env_no_reasoning 0 market_a [] = Inr estimate_no_reasoning"
    unfolding ma by blast
  from a b c t p1 p2 n1 n2 show ?thesis
    by (simp add: fallback_estimate_def)
qed

text \<open>
  Claim C3, as stated, fails for a reply that lacks a key: the reply
  \<^verbatim>\<open>{"estimated_probability": 0.9, "confidence": "HIGH"}\<close> parses, and the estimator returns
  the parsed dict, which is not the fallback Estimate.
\<close>

theorem missing_key_counterexample:
  "json_loads env_no_reasoning (strip_fences reply_no_reasoning)
     = Inr (JObj [(''estimated_probability'', JFloat 0.9), (''confidence'', JStr ''HIGH'')])
   \<and> analyze_event env_no_reasoning 0 market_a []
     = Inr (JObj [(''estimated_probability'', JFloat 0.9), (''confidence'', JStr ''HIGH'')])
   \<and> \<not> is_fallback_estimate
         (JObj [(''estimated_probability'', JFloat 0.9), (''confidence'', JStr ''HIGH'')])"
  by (simp add: analyze_event_def market_a_def model_reply_def first_text_def
      env_no_reasoning_def sample_env_def sample_loads_def strip_fences_def strip_def
      is_space_def sample_texts replace.simps estimate_no_reasoning_def is_fallback_estimate_def)

subsection \<open>One result per market\<close>

text \<open>
  When \<^verbatim>\<open>run_analysis\<close> returns, it returns one result for each of the markets it was
  given, in their order.
\<close>

lemma run_analysis_one_result_per_market:
  assumes "run_analysis E max_events = Inr rs"
  shows "\<exists>markets. slice_json max_events (get_active_markets E) = Inr markets
           \<and> length rs = length markets"
  using assms
  by (auto simp: run_analysis_def run_markets_length split: sum.splits)

text \<open>
  Claim C8 at a reply whose probability is a string. The market service returns the two
  sample markets and the model answers
  \<^verbatim>\<open>{"estimated_probability": "0.7", "confidence": "HIGH", "reasoning": "likely"}\<close>. The
  estimator returns the parsed dict, the subtraction \<^verbatim>\<open>estimated_prob - market_price\<close>
  raises TypeError outside any \<^verbatim>\<open>try\<close>, and \<^verbatim>\<open>run_analysis\<close> ends with that exception:
  no result is returned for either market.
\<close>

theorem string_probability_aborts_run:
  "get_active_markets env_string_prob = JArr [market_a, market_b]
   \<and> analyze_event env_string_prob 0 market_a (search_news env_string_prob 0 ''Rain in NYC tomorrow'')
       = Inr estimate_string_prob
   \<and> run_analysis env_string_prob 10 = Inl (Exn TypeError ''unsupported operand type(s) for -'')"
proof -
  have m: "get_active_markets env_string_prob = JArr [market_a, market_b]"
    by (simp add: get_active_markets_def env_string_prob_def sample_env_def dict_get_def get_or_def)
  have a: "analyze_event env_string_prob 0 market_a srcs = Inr estimate_string_prob" for srcs
    by (simp add: analyze_event_def market_a_def model_reply_def first_text_def
      env_string_prob_def sample_env_def sample_loads_def strip_fences_def strip_def
      is_space_def sample_texts replace.simps)
  have "analyze_market env_string_prob 0 market_a
          = Inl (Exn TypeError ''unsupported operand type(s) for -'')"
    by (simp add: analyze_market_def a [unfolded market_a_def] market_a_def get_or_def
        slice_json_def Let_def numeric_of_def estimate_string_prob_def dict_get_def)
  with m a show ?thesis
    by (simp add: run_analysis_def slice_json_def slice_to_def)
qed

end
